theory Spec2Isabelle
  imports Complex_Main
begin

section \<open>Numbers and values of the source language\<close>

text \<open>
  The components are TypeScript; every quantity, price and rate is a \<^verbatim>\<open>number\<close>,
  an IEEE-754 double (binary64). A number of the model is one of the three special
  values \<open>NaN\<close>, \<open>+Infinity\<close>, \<open>-Infinity\<close>, or \<open>Fin x\<close> for the real \<open>x\<close> it
  denotes. Addition, multiplication and division compute the exact result on
  finite operands and round it as the platform does: to the nearest double, ties
  to the even mantissa, with gradual underflow, and to an infinity beyond the
  largest double. The sign of zero is not represented (both zeros are \<open>Fin 0\<close>);
  the programs below divide only after a test \<^verbatim>\<open>=== 0\<close> on the divisor, which both
  zeros pass, and \<open>js_div\<close> by zero follows the rule for a positive zero. The two
  decimal literals \<^verbatim>\<open>0.01\<close> and \<^verbatim>\<open>1.08\<close> of the add form are kept as the decimals
  they are written as.
\<close>

datatype jsnum = Fin real | PInf | NInf | NaN

text \<open>The number of binary digits of a natural number.\<close>

fun bit_length :: "nat \<Rightarrow> nat" where
  "bit_length n = (if n = 0 then 0 else Suc (bit_length (n div 2)))"

declare bit_length.simps [simp del]

definition pow2 :: "int \<Rightarrow> real" where
  "pow2 e = (if 0 \<le> e then 2 ^ nat e else 1 / 2 ^ nat (- e))"

text \<open>The integer \<open>n\<close> with \<open>2^n \<le> a < 2^(n + 1)\<close>, for \<open>a > 0\<close>.\<close>

definition ilog2 :: "real \<Rightarrow> int" where
  "ilog2 a = (if 1 \<le> a then int (bit_length (nat \<lfloor>a\<rfloor>)) - 1
              else - int (bit_length (nat (\<lceil>1 / a\<rceil> - 1))))"

definition round_half_even :: "real \<Rightarrow> int" where
  "round_half_even q =
     (let f = \<lfloor>q\<rfloor>; d = q - of_int f
      in if d < 1 / 2 then f else if 1 / 2 < d then f + 1 else if even f then f else f + 1)"

text \<open>
  Rounding of an exact result to a double. The doubles next to \<open>a = \<bar>x\<bar>\<close> are the
  multiples of \<open>2^e\<close>, where \<open>e\<close> is 52 below the binary exponent of \<open>a\<close> and -1074
  in the subnormal range; a result of \<open>2^1024\<close> or more, before or after rounding,
  is an infinity. A numeric
  literal of a program or of a JSON text denotes \<open>rnd\<close> of the decimal written.
\<close>

definition rnd :: "real \<Rightarrow> jsnum" where
  "rnd x =
     (let a = \<bar>x\<bar> in
      if a = 0 then Fin 0
      else if pow2 1024 \<le> a then (if 0 < x then PInf else NInf)
      else
        let e = (if a < pow2 (- 1022) then - 1074 else ilog2 a - 52);
            m = round_half_even (a / pow2 e);
            r = of_int m * pow2 e
        in if pow2 1024 \<le> r then (if 0 < x then PInf else NInf)
           else Fin (if 0 < x then r else - r))"

fun js_neg :: "jsnum \<Rightarrow> jsnum" where
  "js_neg (Fin a) = Fin (- a)"
| "js_neg PInf = NInf"
| "js_neg NInf = PInf"
| "js_neg NaN = NaN"

fun js_add :: "jsnum \<Rightarrow> jsnum \<Rightarrow> jsnum" where
  "js_add (Fin a) (Fin b) = rnd (a + b)"
| "js_add (Fin a) PInf = PInf"
| "js_add (Fin a) NInf = NInf"
| "js_add PInf (Fin b) = PInf"
| "js_add PInf PInf = PInf"
| "js_add PInf NInf = NaN"
| "js_add NInf (Fin b) = NInf"
| "js_add NInf NInf = NInf"
| "js_add NInf PInf = NaN"
| "js_add NaN y = NaN"
| "js_add x NaN = NaN"

definition js_sub :: "jsnum \<Rightarrow> jsnum \<Rightarrow> jsnum" where
  "js_sub x y = js_add x (js_neg y)"

text \<open>An infinity with the sign of a finite non-zero factor, \<open>NaN\<close> for the factor zero.\<close>

definition signed_inf :: "real \<Rightarrow> jsnum" where
  "signed_inf a = (if a = 0 then NaN else if 0 < a then PInf else NInf)"

fun js_mul :: "jsnum \<Rightarrow> jsnum \<Rightarrow> jsnum" where
  "js_mul (Fin a) (Fin b) = rnd (a * b)"
| "js_mul (Fin a) PInf = signed_inf a"
| "js_mul (Fin a) NInf = signed_inf (- a)"
| "js_mul PInf (Fin b) = signed_inf b"
| "js_mul NInf (Fin b) = signed_inf (- b)"
| "js_mul PInf PInf = PInf"
| "js_mul PInf NInf = NInf"
| "js_mul NInf PInf = NInf"
| "js_mul NInf NInf = PInf"
| "js_mul NaN y = NaN"
| "js_mul x NaN = NaN"

fun js_div :: "jsnum \<Rightarrow> jsnum \<Rightarrow> jsnum" where
  "js_div (Fin a) (Fin b) = (if b = 0 then signed_inf a else rnd (a / b))"
| "js_div (Fin a) PInf = Fin 0"
| "js_div (Fin a) NInf = Fin 0"
| "js_div PInf (Fin b) = (if 0 \<le> b then PInf else NInf)"
| "js_div NInf (Fin b) = (if 0 \<le> b then NInf else PInf)"
| "js_div PInf PInf = NaN"
| "js_div PInf NInf = NaN"
| "js_div NInf PInf = NaN"
| "js_div NInf NInf = NaN"
| "js_div NaN y = NaN"
| "js_div x NaN = NaN"

text \<open>\<^verbatim>\<open>x < y\<close> and \<^verbatim>\<open>x >= y\<close> on numbers: every comparison with \<open>NaN\<close> is false.\<close>

fun js_lt :: "jsnum \<Rightarrow> jsnum \<Rightarrow> bool" where
  "js_lt (Fin a) (Fin b) = (a < b)"
| "js_lt (Fin a) PInf = True"
| "js_lt NInf (Fin b) = True"
| "js_lt NInf PInf = True"
| "js_lt x y = False"

fun js_ge :: "jsnum \<Rightarrow> jsnum \<Rightarrow> bool" where
  "js_ge NaN y = False"
| "js_ge x NaN = False"
| "js_ge x y = (\<not> js_lt x y)"

definition js_gt :: "jsnum \<Rightarrow> jsnum \<Rightarrow> bool" where
  "js_gt x y = js_lt y x"

fun is_finite :: "jsnum \<Rightarrow> bool" where
  "is_finite (Fin a) = True"
| "is_finite x = False"

text \<open>Truthiness of a number, as \<^verbatim>\<open>x || 0\<close> and \<^verbatim>\<open>!x\<close> read it: zero and \<open>NaN\<close> are falsy.\<close>

fun num_truthy :: "jsnum \<Rightarrow> bool" where
  "num_truthy (Fin a) = (a \<noteq> 0)"
| "num_truthy NaN = False"
| "num_truthy x = True"

text \<open>\<^verbatim>\<open>x || 0\<close> for a number \<open>x\<close>.\<close>

definition or_zero :: "jsnum \<Rightarrow> jsnum" where
  "or_zero x = (if num_truthy x then x else Fin 0)"

text \<open>
  A value as \<^verbatim>\<open>response.json()\<close> and property access produce it. An object is
  the list of its own properties in the order of the parsed text; \<open>map_of\<close> reads
  the first entry of a key, so an object is listed with each key once.
\<close>

datatype jsval =
    JUndefined
  | JNull
  | JBool bool
  | JNum jsnum
  | JStr string
  | JArr "jsval list"
  | JObj "(string \<times> jsval) list"

datatype error = TypeError | NetworkError

fun truthy :: "jsval \<Rightarrow> bool" where
  "truthy JUndefined = False"
| "truthy JNull = False"
| "truthy (JBool b) = b"
| "truthy (JNum n) = num_truthy n"
| "truthy (JStr s) = (s \<noteq> [])"
| "truthy (JArr xs) = True"
| "truthy (JObj kvs) = True"

text \<open>
  \<^verbatim>\<open>v.p\<close> for a property name \<open>p\<close> that is not an array index: reading a property
  of \<^verbatim>\<open>undefined\<close> or \<^verbatim>\<open>null\<close> throws a TypeError, a missing property is
  \<^verbatim>\<open>undefined\<close>, and strings and arrays have the property \<^verbatim>\<open>length\<close>. The
  properties read by the programs are \<^verbatim>\<open>status\<close>, \<^verbatim>\<open>results\<close>, \<^verbatim>\<open>ticker\<close>,
  \<^verbatim>\<open>name\<close>, \<^verbatim>\<open>length\<close> and \<^verbatim>\<open>c\<close>; none of them is a method of a prototype.
\<close>

fun get_prop :: "jsval \<Rightarrow> string \<Rightarrow> error + jsval" where
  "get_prop JUndefined p = Inl TypeError"
| "get_prop JNull p = Inl TypeError"
| "get_prop (JObj kvs) p = Inr (case map_of kvs p of None \<Rightarrow> JUndefined | Some v \<Rightarrow> v)"
| "get_prop (JArr xs) p = Inr (if p = ''length'' then JNum (Fin (real (length xs))) else JUndefined)"
| "get_prop (JStr s) p = Inr (if p = ''length'' then JNum (Fin (real (length s))) else JUndefined)"
| "get_prop (JBool b) p = Inr JUndefined"
| "get_prop (JNum n) p = Inr JUndefined"

text \<open>\<^verbatim>\<open>v[0]\<close>: the first element of an array, the first character of a string,
  the property \<^verbatim>\<open>"0"\<close> of an object.\<close>

fun get_index0 :: "jsval \<Rightarrow> error + jsval" where
  "get_index0 JUndefined = Inl TypeError"
| "get_index0 JNull = Inl TypeError"
| "get_index0 (JArr xs) = Inr (case xs of [] \<Rightarrow> JUndefined | x # _ \<Rightarrow> x)"
| "get_index0 (JStr s) = Inr (case s of [] \<Rightarrow> JUndefined | ch # _ \<Rightarrow> JStr [ch])"
| "get_index0 (JObj kvs) = Inr (case map_of kvs ''0'' of None \<Rightarrow> JUndefined | Some v \<Rightarrow> v)"
| "get_index0 (JBool b) = Inr JUndefined"
| "get_index0 (JNum n) = Inr JUndefined"

text \<open>
  \<^verbatim>\<open>v > 0\<close>. On a number it is the comparison of numbers. On any other value the
  platform first converts with ToNumber (which parses strings, joins arrays, and
  throws a TypeError on an object that has no usable conversion); that conversion
  is the parameter \<open>tonum\<close>, and every statement below holds for each such function.
\<close>

type_synonym tonumber = "jsval \<Rightarrow> error + jsnum"

definition gt_zero :: "tonumber \<Rightarrow> jsval \<Rightarrow> error + bool" where
  "gt_zero tonum v =
     (case v of
        JNum n \<Rightarrow> Inr (js_gt n (Fin 0))
      | _ \<Rightarrow> (case tonum v of Inl e \<Rightarrow> Inl e | Inr n \<Rightarrow> Inr (js_gt n (Fin 0))))"

text \<open>\<^verbatim>\<open>typeof v === "number"\<close>.\<close>

fun is_number :: "jsval \<Rightarrow> bool" where
  "is_number (JNum n) = True"
| "is_number v = False"

text \<open>\<^verbatim>\<open>s.toUpperCase()\<close> on the letters a to z; a string is a list of bytes here,
  and every other byte is kept.\<close>

definition upper_char :: "char \<Rightarrow> char" where
  "upper_char ch =
     (let n = (of_char ch :: nat) in if 97 \<le> n \<and> n \<le> 122 then char_of (n - 32) else ch)"

definition toUpperCase :: "string \<Rightarrow> string" where
  "toUpperCase s = map upper_char s"


section \<open>Market data client of the portfolio table\<close>

text \<open>
  The network is an input of the model: \<open>net i url\<close> is what the \<open>i\<close>-th request of
  a call (counted from 0) to \<open>url\<close> gives after \<^verbatim>\<open>await fetch(url)\<close> and
  \<^verbatim>\<open>await response.json()\<close>: \<open>Inl\<close> when either of them throws, \<open>Inr\<close> the parsed
  body otherwise. Every function that can issue requests returns, next to its
  result, the URLs it requested in order. The delay of 150 ms before every
  request of the price loop is not represented.
\<close>

type_synonym network = "nat \<Rightarrow> string \<Rightarrow> error + jsval"

definition and_then :: "error + 'a \<Rightarrow> ('a \<Rightarrow> error + 'b) \<Rightarrow> error + 'b" where
  "and_then r f = (case r of Inl e \<Rightarrow> Inl e | Inr v \<Rightarrow> f v)"

text \<open>\<^verbatim>\<open>!POLYGON_API_KEY\<close>: the variable of the environment is unset or empty.\<close>

definition key_missing :: "string option \<Rightarrow> bool" where
  "key_missing k = (case k of None \<Rightarrow> True | Some s \<Rightarrow> s = [])"

definition key_text :: "string option \<Rightarrow> string" where
  "key_text k = (case k of None \<Rightarrow> ''undefined'' | Some s \<Rightarrow> s)"

definition prev_url :: "string \<Rightarrow> string option \<Rightarrow> string" where
  "prev_url tkr k =
     ''https://api.polygon.io/v2/aggs/ticker/'' @ tkr @ ''/prev?adjusted=true&apiKey='' @ key_text k"

text \<open>\<^verbatim>\<open>data && data.results && data.results.length > 0\<close>\<close>

definition has_results :: "tonumber \<Rightarrow> jsval \<Rightarrow> error + bool" where
  "has_results tonum data =
     (if \<not> truthy data then Inr False
      else and_then (get_prop data ''results'') (\<lambda>r.
        if \<not> truthy r then Inr False
        else and_then (get_prop r ''length'') (gt_zero tonum)))"

text \<open>\<^verbatim>\<open>data.results[0].c\<close>\<close>

definition first_close :: "jsval \<Rightarrow> error + jsval" where
  "first_close data =
     and_then (get_prop data ''results'') (\<lambda>r. and_then (get_index0 r) (\<lambda>x. get_prop x ''c''))"

text \<open>\<^verbatim>\<open>typeof close === "number" ? close : d\<close>\<close>

definition number_or :: "jsnum \<Rightarrow> jsval \<Rightarrow> jsnum" where
  "number_or d v = (case v of JNum n \<Rightarrow> n | _ \<Rightarrow> d)"

text \<open>The body of the loop of \<^verbatim>\<open>fetchStockPrices\<close>: the value stored under the
  ticker, for the outcome of its request. The \<^verbatim>\<open>catch\<close> block stores 0.\<close>

definition stock_price :: "tonumber \<Rightarrow> error + jsval \<Rightarrow> jsnum" where
  "stock_price tonum outcome =
     (case and_then outcome (\<lambda>data.
             and_then (has_results tonum data) (\<lambda>found.
               if found then and_then (first_close data) (\<lambda>closePrice. Inr (number_or (Fin 0) closePrice))
               else Inr (Fin 0))) of
        Inl e \<Rightarrow> Fin 0
      | Inr p \<Rightarrow> p)"

text \<open>
  The record of prices is a plain object: a map from the names of its own
  properties to numbers, in front of the members it inherits from
  \<^verbatim>\<open>Object.prototype\<close>, listed here as the language standard has them. The
  assignment \<^verbatim>\<open>prices[key] = v\<close> of a number creates or updates the own property,
  except for the name \<^verbatim>\<open>__proto__\<close>: unless the object has an own property of
  that name, the assignment runs the inherited setter, which ignores a number, and
  stores nothing.
\<close>

definition object_prototype_members :: "string list" where
  "object_prototype_members =
     [''constructor'', ''__defineGetter__'', ''__defineSetter__'', ''hasOwnProperty'',
      ''__lookupGetter__'', ''__lookupSetter__'', ''isPrototypeOf'', ''propertyIsEnumerable'',
      ''toString'', ''valueOf'', ''__proto__'', ''toLocaleString'']"

definition assign :: "(string \<rightharpoonup> jsnum) \<Rightarrow> string \<Rightarrow> jsnum \<Rightarrow> (string \<rightharpoonup> jsnum)" where
  "assign obj key v = (if key = ''__proto__'' \<and> obj key = None then obj else obj(key \<mapsto> v))"

fun price_loop ::
  "tonumber \<Rightarrow> network \<Rightarrow> string option \<Rightarrow> nat \<Rightarrow> string list \<Rightarrow>
   (string \<rightharpoonup> jsnum) \<times> string list \<Rightarrow> (string \<rightharpoonup> jsnum) \<times> string list" where
  "price_loop tonum net k i [] (prices, reqs) = (prices, reqs)"
| "price_loop tonum net k i (tkr # rest) (prices, reqs) =
     price_loop tonum net k (Suc i) rest
       (assign prices tkr (stock_price tonum (net i (prev_url tkr k))), reqs @ [prev_url tkr k])"

text \<open>\<^verbatim>\<open>Object.fromEntries\<close>: the entries are stored from left to right, each as an
  own property (also under the name \<^verbatim>\<open>__proto__\<close>).\<close>

definition fromEntries :: "(string \<times> jsnum) list \<Rightarrow> (string \<rightharpoonup> jsnum)" where
  "fromEntries es = foldl (\<lambda>m (key, v). m(key \<mapsto> v)) Map.empty es"

definition fetchStockPrices ::
  "string option \<Rightarrow> tonumber \<Rightarrow> network \<Rightarrow> string list \<Rightarrow> (string \<rightharpoonup> jsnum) \<times> string list" where
  "fetchStockPrices k tonum net tickers =
     (if key_missing k then (fromEntries (map (\<lambda>tkr. (tkr, Fin 0)) tickers), [])
      else price_loop tonum net k 0 tickers (Map.empty, []))"

definition fx_url :: "string \<Rightarrow> string \<Rightarrow> string option \<Rightarrow> string" where
  "fx_url from to k = prev_url (''C:'' @ from @ to) k"

definition fetchExchangeRate ::
  "string option \<Rightarrow> tonumber \<Rightarrow> network \<Rightarrow> string \<Rightarrow> string \<Rightarrow> jsnum \<times> string list" where
  "fetchExchangeRate k tonum net from to =
     (if from = to then (Fin 1, [])
      else if key_missing k then (Fin 1, [])
      else
        ((case and_then (net 0 (fx_url from to k)) (\<lambda>data.
                 and_then (has_results tonum data) (\<lambda>found.
                   if found then and_then (first_close data) (\<lambda>closeRate. Inr (number_or (Fin 1) closeRate))
                   else Inr (Fin 1))) of
            Inl e \<Rightarrow> Fin 1
          | Inr rate \<Rightarrow> rate),
         [fx_url from to k]))"

section \<open>Portfolio table: rows and totals\<close>

record PortfolioItem =
  item_id :: string
  ticker :: string
  quantity :: jsnum
  purchase_price :: jsnum
  purchase_date :: string

text \<open>
  What \<^verbatim>\<open>prices[ticker] || 0\<close> evaluates to: a number, or a member inherited from
  \<^verbatim>\<open>Object.prototype\<close> (a function, or the prototype itself under the name
  \<^verbatim>\<open>__proto__\<close>). Such a member is truthy, and multiplication converts it to \<open>NaN\<close>.
\<close>

datatype price = Price jsnum | Inherited

definition price_number :: "price \<Rightarrow> jsnum" where
  "price_number p = (case p of Price n \<Rightarrow> n | Inherited \<Rightarrow> NaN)"

record DisplayItem = PortfolioItem +
  current_price :: price
  market_value :: jsnum
  cost_basis :: jsnum
  gain_loss :: jsnum
  gain_loss_percent :: jsnum

text \<open>The function mapped over the portfolio in \<^verbatim>\<open>fetchPortfolio\<close>. A ticker that
  is neither an own property of \<open>prices\<close> nor the name of an inherited member reads
  as \<^verbatim>\<open>undefined\<close>, which \<^verbatim>\<open>|| 0\<close> turns into 0.\<close>

definition displayRow :: "(string \<rightharpoonup> jsnum) \<Rightarrow> PortfolioItem \<Rightarrow> DisplayItem" where
  "displayRow prices item =
     (let currentPrice =
            (case prices (ticker item) of
               Some p \<Rightarrow> Price (or_zero p)
             | None \<Rightarrow>
                 if ticker item \<in> set object_prototype_members then Inherited else Price (Fin 0));
          costBasis = js_mul (quantity item) (purchase_price item);
          marketValue = js_mul (quantity item) (price_number currentPrice);
          gainLoss = js_sub marketValue costBasis
      in \<lparr> item_id = item_id item, ticker = ticker item, quantity = quantity item,
           purchase_price = purchase_price item, purchase_date = purchase_date item,
           current_price = currentPrice,
           market_value = marketValue,
           cost_basis = costBasis,
           gain_loss = gainLoss,
           gain_loss_percent =
             (if costBasis = Fin 0 then Fin 0 else js_mul (js_div gainLoss costBasis) (Fin 100)) \<rparr>)"

text \<open>\<^verbatim>\<open>Array.from(new Set(xs))\<close>: the distinct elements in the order of their first
  occurrence.\<close>

definition uniqueOf :: "string list \<Rightarrow> string list" where
  "uniqueOf xs = foldl (\<lambda>seen x. if x \<in> set seen then seen else seen @ [x]) [] xs"

text \<open>
  \<^verbatim>\<open>fetchPortfolio\<close>, from the answer of the store's select (\<open>Inl\<close> its error,
  \<open>Inr\<close> the rows, a null answer being the empty list) to the new value of the
  state \<^verbatim>\<open>holdings\<close>; \<open>None\<close> when the state is left as it was.
\<close>

definition fetchPortfolio ::
  "string option \<Rightarrow> tonumber \<Rightarrow> network \<Rightarrow> string + PortfolioItem list \<Rightarrow> DisplayItem list option" where
  "fetchPortfolio k tonum net selected =
     (case selected of
        Inl err \<Rightarrow> None
      | Inr portfolio \<Rightarrow>
          if length portfolio = 0 then Some []
          else
            let uniqueTickers = uniqueOf (map ticker portfolio);
                prices = fst (fetchStockPrices k tonum net uniqueTickers)
            in Some (map (displayRow prices) portfolio))"

definition handleCurrencyChange ::
  "string option \<Rightarrow> tonumber \<Rightarrow> network \<Rightarrow> string \<Rightarrow> jsnum" where
  "handleCurrencyChange k tonum net newCurrency =
     (if newCurrency = ''USD'' then Fin 1
      else fst (fetchExchangeRate k tonum net ''USD'' newCurrency))"

definition totalMarketValue :: "DisplayItem list \<Rightarrow> jsnum \<Rightarrow> jsnum" where
  "totalMarketValue holdings exchangeRate =
     js_mul (foldl (\<lambda>sum item. js_add sum (market_value item)) (Fin 0) holdings) exchangeRate"

definition totalCostBasis :: "DisplayItem list \<Rightarrow> jsnum \<Rightarrow> jsnum" where
  "totalCostBasis holdings exchangeRate =
     js_mul (foldl (\<lambda>sum item. js_add sum (cost_basis item)) (Fin 0) holdings) exchangeRate"

definition totalGainLoss :: "DisplayItem list \<Rightarrow> jsnum \<Rightarrow> jsnum" where
  "totalGainLoss holdings exchangeRate =
     js_sub (totalMarketValue holdings exchangeRate) (totalCostBasis holdings exchangeRate)"

definition totalGainLossPercent :: "DisplayItem list \<Rightarrow> jsnum \<Rightarrow> jsnum" where
  "totalGainLossPercent holdings exchangeRate =
     (if totalCostBasis holdings exchangeRate = Fin 0 then Fin 0
      else js_mul (js_div (totalGainLoss holdings exchangeRate) (totalCostBasis holdings exchangeRate))
             (Fin 100))"

text \<open>The numbers a table row hands to \<^verbatim>\<open>formatCurrency\<close> and \<^verbatim>\<open>formatPercent\<close>;
  the formatting itself is the platform's.\<close>

record row_cells =
  cell_cost_per_share :: jsnum
  cell_current_price :: jsnum
  cell_market_value :: jsnum
  cell_gain_loss :: jsnum
  cell_gain_loss_percent :: jsnum

definition rowCells :: "DisplayItem \<Rightarrow> jsnum \<Rightarrow> row_cells" where
  "rowCells holding exchangeRate =
     \<lparr> cell_cost_per_share = js_mul (purchase_price holding) exchangeRate,
       cell_current_price = js_mul (price_number (current_price holding)) exchangeRate,
       cell_market_value = js_mul (market_value holding) exchangeRate,
       cell_gain_loss = js_mul (gain_loss holding) exchangeRate,
       cell_gain_loss_percent = gain_loss_percent holding \<rparr>"


section \<open>Add-holding form\<close>

record ticker_check =
  exists :: bool
  name :: jsval

definition not_found :: ticker_check where
  "not_found = \<lparr> exists = False, name = JNull \<rparr>"

definition details_url :: "string \<Rightarrow> string option \<Rightarrow> string" where
  "details_url tkr k = ''https://api.polygon.io/v3/reference/tickers/'' @ tkr @ ''?apiKey='' @ key_text k"

text \<open>\<^verbatim>\<open>checkTickerAndName\<close>. The field \<open>name\<close> of the result is \<^verbatim>\<open>data.results.name\<close>
  as the response has it when that is truthy, so it is kept as a value.\<close>

definition checkTickerAndName :: "string option \<Rightarrow> network \<Rightarrow> string \<Rightarrow> ticker_check \<times> string list" where
  "checkTickerAndName k net tkr =
     (if tkr = [] \<or> key_missing k then (not_found, [])
      else
        ((case and_then (net 0 (details_url tkr k)) (\<lambda>data.
                 and_then (get_prop data ''status'') (\<lambda>status.
                   if status \<noteq> JStr ''OK'' then Inr not_found
                   else and_then (get_prop data ''results'') (\<lambda>results.
                     if \<not> truthy results then Inr not_found
                     else and_then (get_prop results ''ticker'') (\<lambda>found.
                       if found \<noteq> JStr (toUpperCase tkr) then Inr not_found
                       else and_then (get_prop results ''name'') (\<lambda>n.
                         Inr \<lparr> exists = True,
                               name = (if truthy n then n else JStr (toUpperCase tkr)) \<rparr>))))) of
            Inl e \<Rightarrow> not_found
          | Inr r \<Rightarrow> r),
         [details_url tkr k]))"

definition fetchEuroToUsdRate :: "string option \<Rightarrow> tonumber \<Rightarrow> network \<Rightarrow> jsnum \<times> string list" where
  "fetchEuroToUsdRate k tonum net =
     (if key_missing k then (Fin 1.08, [])
      else
        ((case and_then (net 0 (prev_url ''C:EURUSD'' k)) (\<lambda>data.
                 and_then (get_prop data ''status'') (\<lambda>status.
                   if status \<noteq> JStr ''OK'' then Inr (Fin 1.08)
                   else and_then (get_prop data ''results'') (\<lambda>results.
                     if \<not> truthy results then Inr (Fin 1.08)
                     else and_then (get_prop results ''length'') (\<lambda>len.
                       and_then (gt_zero tonum len) (\<lambda>found.
                         if found
                         then and_then (first_close data) (\<lambda>closeRate. Inr (number_or (Fin 1.08) closeRate))
                         else Inr (Fin 1.08)))))) of
            Inl e \<Rightarrow> Fin 1.08
          | Inr rate \<Rightarrow> rate),
         [prev_url ''C:EURUSD'' k]))"

text \<open>
  The values of the form's fields as the resolver receives them (the two number
  fields hold the result of \<^verbatim>\<open>parseFloat\<close>, a number or \<open>NaN\<close>), and the values
  the schema hands to \<^verbatim>\<open>onSubmit\<close>.
\<close>

record form_input =
  in_ticker :: string
  in_quantity :: jsnum
  in_purchase_price :: jsnum
  in_purchase_date :: string
  in_purchase_currency :: string

datatype currency = USD | EUR

record form_values =
  v_ticker :: string
  v_quantity :: jsnum
  v_purchase_price :: jsnum
  v_purchase_date :: string
  v_purchase_currency :: currency

text \<open>
  The schema library (zod) is not part of the repository. \<^verbatim>\<open>z.number().min(lo)\<close>
  accepts a number that is not \<open>NaN\<close> and is at least \<open>lo\<close>;
  \<^verbatim>\<open>z.string().min(1)\<close> a string of at least one character; \<^verbatim>\<open>z.enum\<close> one of
  the listed strings. Releases of the library differ on \<open>+Infinity\<close>, which is
  accepted here; the statements below about rejected and accepted inputs hold
  under either reading.
\<close>

definition z_number_min :: "real \<Rightarrow> jsnum \<Rightarrow> bool" where
  "z_number_min lo v = js_ge v (Fin lo)"

definition z_enum_currency :: "string \<Rightarrow> currency option" where
  "z_enum_currency s = (if s = ''USD'' then Some USD else if s = ''EUR'' then Some EUR else None)"

definition formSchema :: "form_input \<Rightarrow> form_values option" where
  "formSchema i =
     (if 1 \<le> length (in_ticker i)
         \<and> z_number_min 1 (in_quantity i)
         \<and> z_number_min 0.01 (in_purchase_price i)
         \<and> 1 \<le> length (in_purchase_date i)
      then (case z_enum_currency (in_purchase_currency i) of
              None \<Rightarrow> None
            | Some cur \<Rightarrow>
                Some \<lparr> v_ticker = toUpperCase (in_ticker i),
                       v_quantity = in_quantity i,
                       v_purchase_price = in_purchase_price i,
                       v_purchase_date = in_purchase_date i,
                       v_purchase_currency = cur \<rparr>)
      else None)"

record insert_row =
  ins_user_id :: string
  ins_ticker :: string
  ins_quantity :: jsnum
  ins_purchase_price :: jsnum
  ins_purchase_date :: string

record update_row =
  upd_id :: string
  upd_quantity :: jsnum
  upd_purchase_price :: jsnum
  upd_purchase_date :: string

text \<open>What a handler does to the outside, in order.\<close>

datatype effect =
    Alert string
  | Request string
  | Insert insert_row
  | Update update_row
  | FormReset
  | SetCompanyName jsval
  | SetTickerValidated "bool option"
  | SetOpen bool
  | OnSuccess
  | OnClose

text \<open>
  \<^verbatim>\<open>onSubmit\<close>. \<open>tickerValidated\<close> is the state of the component (\<open>None\<close> for
  \<^verbatim>\<open>null\<close>), \<open>user\<close> the id of the signed-in user if there is one, and
  \<open>insert_error\<close> the message of the store's error if the insert fails.
\<close>

definition onSubmit ::
  "bool option \<Rightarrow> string option \<Rightarrow> string option \<Rightarrow> tonumber \<Rightarrow> network \<Rightarrow> string option \<Rightarrow>
   form_values \<Rightarrow> effect list" where
  "onSubmit tickerValidated user k tonum net insert_error values =
     (if tickerValidated \<noteq> Some True then [Alert ''Please validate the ticker before submitting.'']
      else
        (case user of
           None \<Rightarrow> [Alert ''You must be logged in to add a stock.'']
         | Some uid \<Rightarrow>
             let (usdPrice, reqs) =
                   (if v_purchase_currency values = EUR
                    then (let (euroToUsdRate, urls) = fetchEuroToUsdRate k tonum net
                          in (js_mul (v_purchase_price values) euroToUsdRate, urls))
                    else (v_purchase_price values, []))
             in map Request reqs
                @ [Insert \<lparr> ins_user_id = uid,
                             ins_ticker = v_ticker values,
                             ins_quantity = v_quantity values,
                             ins_purchase_price = usdPrice,
                             ins_purchase_date = v_purchase_date values \<rparr>]
                @ (case insert_error of
                     Some msg \<Rightarrow> [Alert (''Error: '' @ msg)]
                   | None \<Rightarrow> [FormReset, SetCompanyName JNull, SetTickerValidated None,
                               SetOpen False, OnSuccess])))"

text \<open>\<^verbatim>\<open>form.handleSubmit(onSubmit)\<close>: the form library runs the resolver and calls
  \<^verbatim>\<open>onSubmit\<close> with the parsed values only when the schema accepts the input.\<close>

definition handleSubmit ::
  "bool option \<Rightarrow> string option \<Rightarrow> string option \<Rightarrow> tonumber \<Rightarrow> network \<Rightarrow> string option \<Rightarrow>
   form_input \<Rightarrow> effect list" where
  "handleSubmit tickerValidated user k tonum net insert_error i =
     (case formSchema i of
        None \<Rightarrow> []
      | Some values \<Rightarrow> onSubmit tickerValidated user k tonum net insert_error values)"

text \<open>The \<^verbatim>\<open>disabled\<close> attribute of the submit button.\<close>

definition submitDisabled :: "bool \<Rightarrow> bool option \<Rightarrow> bool \<Rightarrow> bool" where
  "submitDisabled isSubmitting tickerValidated isChecking =
     (isSubmitting \<or> tickerValidated \<noteq> Some True \<or> isChecking)"

fun is_insert :: "effect \<Rightarrow> bool" where
  "is_insert (Insert r) = True"
| "is_insert e = False"

section \<open>Edit-holding form\<close>

record edit_data =
  ed_quantity :: jsnum
  ed_purchase_price :: jsnum
  ed_purchase_date :: string

definition initial_data :: "PortfolioItem \<Rightarrow> edit_data" where
  "initial_data holding =
     \<lparr> ed_quantity = quantity holding,
       ed_purchase_price = purchase_price holding,
       ed_purchase_date = purchase_date holding \<rparr>"

text \<open>The three \<^verbatim>\<open>onChange\<close> handlers; \<open>parsed\<close> is \<^verbatim>\<open>parseFloat(e.target.value)\<close>,
  a number or \<open>NaN\<close>.\<close>

definition onChange_quantity :: "edit_data \<Rightarrow> jsnum \<Rightarrow> edit_data" where
  "onChange_quantity d parsed = d\<lparr> ed_quantity := or_zero parsed \<rparr>"

definition onChange_price :: "edit_data \<Rightarrow> jsnum \<Rightarrow> edit_data" where
  "onChange_price d parsed = d\<lparr> ed_purchase_price := or_zero parsed \<rparr>"

definition onChange_date :: "edit_data \<Rightarrow> string \<Rightarrow> edit_data" where
  "onChange_date d text = d\<lparr> ed_purchase_date := text \<rparr>"

text \<open>\<^verbatim>\<open>handleSave\<close>; \<open>update_error\<close> tells whether the store answered with an error.\<close>

definition handleSave :: "edit_data \<Rightarrow> PortfolioItem \<Rightarrow> bool \<Rightarrow> effect list" where
  "handleSave d holding update_error =
     [Update \<lparr> upd_id = item_id holding,
                upd_quantity = ed_quantity d,
                upd_purchase_price = ed_purchase_price d,
                upd_purchase_date = ed_purchase_date d \<rparr>]
     @ (if update_error then [Alert ''Could not update holding.''] else [OnSuccess, OnClose])"


section \<open>Auxiliary notions used in the statements\<close>

text \<open>\<^verbatim>\<open>xs.reduce((sum, x) => sum + x, 0)\<close> on a list of numbers.\<close>

definition js_sum :: "jsnum list \<Rightarrow> jsnum" where
  "js_sum xs = foldl js_add (Fin 0) xs"

text \<open>The holding of the specification's scenario: ten shares of AAPL bought at 100.\<close>

definition aapl_holding :: PortfolioItem where
  "aapl_holding =
     \<lparr> item_id = ''h1'', ticker = ''AAPL'', quantity = Fin 10, purchase_price = Fin 100,
       purchase_date = ''2024-01-02'' \<rparr>"

text \<open>Two answers of the ticker-details endpoint for AAPL, with and without a
  company name.\<close>

definition aapl_details :: jsval where
  "aapl_details =
     JObj [(''status'', JStr ''OK''),
           (''results'', JObj [(''ticker'', JStr ''AAPL''), (''name'', JStr ''Apple Inc.'')])]"

definition aapl_details_unnamed :: jsval where
  "aapl_details_unnamed =
     JObj [(''status'', JStr ''OK''), (''results'', JObj [(''ticker'', JStr ''AAPL'')])]"

text \<open>An answer of the previous-close endpoint with one bar; a conversion to
  number that always gives \<open>NaN\<close>; and a network whose second request throws
  while every other request is answered with the close 7.\<close>

definition bar_response :: "jsnum \<Rightarrow> jsval" where
  "bar_response closing =
     JObj [(''status'', JStr ''OK''), (''results'', JArr [JObj [(''c'', JNum closing)]])]"

definition tonum_nan :: tonumber where
  "tonum_nan v = Inr NaN"

definition second_fails :: network where
  "second_fails i url = (if i = 1 then Inl NetworkError else Inr (bar_response (Fin 7)))"

text \<open>Two inputs of the add form: ten shares of \<open>aapl\<close> at 100, entered in EUR and
  in USD.\<close>

definition eur_input :: form_input where
  "eur_input =
     \<lparr> in_ticker = ''aapl'', in_quantity = Fin 10, in_purchase_price = Fin 100,
       in_purchase_date = ''2024-01-02'', in_purchase_currency = ''EUR'' \<rparr>"

definition usd_input :: form_input where
  "usd_input = eur_input \<lparr> in_purchase_currency := ''USD'' \<rparr>"

text \<open>Three further holdings: one whose quantity and purchase price are the
  double \<open>2^512\<close>, one whose ticker is the name of a method every object inherits,
  and one share bought at 1.\<close>

definition big_holding :: PortfolioItem where
  "big_holding =
     \<lparr> item_id = ''h3'', ticker = ''BIG'', quantity = Fin (2 ^ 512), purchase_price = Fin (2 ^ 512),
       purchase_date = ''2024-01-02'' \<rparr>"

definition toString_holding :: PortfolioItem where
  "toString_holding =
     \<lparr> item_id = ''h4'', ticker = ''toString'', quantity = Fin 10, purchase_price = Fin 100,
       purchase_date = ''2024-01-02'' \<rparr>"

definition unit_holding :: PortfolioItem where
  "unit_holding =
     \<lparr> item_id = ''h5'', ticker = ''XYZ'', quantity = Fin 1, purchase_price = Fin 1,
       purchase_date = ''2024-01-02'' \<rparr>"

text \<open>A holding bought at the smallest positive double, \<open>2^-1074\<close>.\<close>

definition tiny_holding :: PortfolioItem where
  "tiny_holding =
     \<lparr> item_id = ''h8'', ticker = ''XYZ'', quantity = Fin 1, purchase_price = Fin (1 / 2 ^ 1074),
       purchase_date = ''2024-01-02'' \<rparr>"

section \<open>Evaluation of the number model\<close>

lemmas rnd_eval = rnd_def ilog2_def round_half_even_def pow2_def Let_def bit_length.simps

lemma is_finite_iff: "is_finite x \<longleftrightarrow> (\<exists>a. x = Fin a)"
  by (cases x) simp_all

lemma or_zero_cases: "or_zero v = (if v = NaN then Fin 0 else v)"
  by (cases v) (simp_all add: or_zero_def)

lemma rnd_zero: "rnd 0 = Fin 0"
  by (simp add: rnd_def)

section \<open>Rows of the portfolio table\<close>

lemma aapl_row:
  "displayRow [''AAPL'' \<mapsto> Fin 150] aapl_holding
     = \<lparr> item_id = ''h1'', ticker = ''AAPL'', quantity = Fin 10, purchase_price = Fin 100,
         purchase_date = ''2024-01-02'', current_price = Price (Fin 150), market_value = Fin 1500,
         cost_basis = Fin 1000, gain_loss = Fin 500, gain_loss_percent = Fin 50 \<rparr>"
  by (simp add: displayRow_def aapl_holding_def or_zero_def js_sub_def price_number_def rnd_eval)

lemma unit_row:
  "displayRow [''XYZ'' \<mapsto> Fin 3] unit_holding
     = \<lparr> item_id = ''h5'', ticker = ''XYZ'', quantity = Fin 1, purchase_price = Fin 1,
         purchase_date = ''2024-01-02'', current_price = Price (Fin 3), market_value = Fin 3,
         cost_basis = Fin 1, gain_loss = Fin 2, gain_loss_percent = Fin 200 \<rparr>"
  by (simp add: displayRow_def unit_holding_def or_zero_def js_sub_def price_number_def rnd_eval)

lemma rnd_not_NaN: "rnd x \<noteq> NaN"
  by (simp add: rnd_def Let_def)

lemma ratio_not_NaN:
  assumes "c \<noteq> 0"
  shows "js_mul (js_div (js_sub (Fin m) (Fin c)) (Fin c)) (Fin 100) \<noteq> NaN"
proof -
  have s: "js_sub (Fin m) (Fin c) = rnd (m - c)" by (simp add: js_sub_def)
  show ?thesis
  proof (cases "rnd (m - c)")
    case (Fin g)
    with assms s have d: "js_div (js_sub (Fin m) (Fin c)) (Fin c) = rnd (g / c)" by simp
    show ?thesis
      by (cases "rnd (g / c)") (simp_all add: d rnd_not_NaN signed_inf_def)
  next
    case PInf
    with s show ?thesis by (simp add: signed_inf_def)
  next
    case NInf
    with s show ?thesis by (simp add: signed_inf_def)
  next
    case NaN
    with rnd_not_NaN show ?thesis by blast
  qed
qed

lemma percent_not_NaN:
  assumes "is_finite (market_value (displayRow prices item))"
    and "is_finite (cost_basis (displayRow prices item))"
  shows "gain_loss_percent (displayRow prices item) \<noteq> NaN"
proof -
  from assms obtain m c where mc: "market_value (displayRow prices item) = Fin m"
      "cost_basis (displayRow prices item) = Fin c"
    by (auto simp: is_finite_iff)
  have "gain_loss_percent (displayRow prices item)
     = (if cost_basis (displayRow prices item) = Fin 0 then Fin 0
        else js_mul (js_div (js_sub (market_value (displayRow prices item)) (cost_basis (displayRow prices item)))
               (cost_basis (displayRow prices item))) (Fin 100))"
    by (simp add: displayRow_def Let_def)
  with mc ratio_not_NaN [of c m] show ?thesis by simp
qed

lemma tiny_steps:
  "rnd 1 = Fin 1 \<and> rnd (1 / 2 ^ 1074) = Fin (1 / 2 ^ 1074)
   \<and> rnd (1 - 1 / 2 ^ 1074) = Fin 1 \<and> rnd (1 / (1 / 2 ^ 1074)) = PInf"
  by (simp add: rnd_eval)

text \<open>
  C1, as the claim states it, fails. The claim promises, for every holding and price
  map, a percentage that is never \<open>NaN\<close> or \<open>Infinity\<close>, and the current price 0 for
  every ticker that is absent from the price map.

  \<^item> A price map is a record of numbers; with the entry \<open>+Infinity\<close> for AAPL (which
    \<^verbatim>\<open>fetchStockPrices\<close> stores when the close in the response is a literal beyond
    the range of a double), the row of the scenario's holding has the percentage
    \<open>+Infinity\<close>.
  \<^item> Finite inputs do not exclude it. With the quantity and the purchase price
    \<open>2^512\<close> and no price, the cost basis overflows to \<open>+Infinity\<close> and the percentage
    is \<open>NaN\<close>. With the quantity 1, the purchase price \<open>2^-1074\<close> and the price 1,
    market value and cost basis are finite and the quotient overflows: the
    percentage is \<open>+Infinity\<close>.
  \<^item> For a holding with the ticker \<^verbatim>\<open>toString\<close> and a price map without that key,
    \<^verbatim>\<open>prices[item.ticker]\<close> is the method inherited from \<^verbatim>\<open>Object.prototype\<close>, which
    is truthy: the default 0 is not taken, and market value and percentage are \<open>NaN\<close>.
\<close>

theorem C1_percent_counterexample:
  "gain_loss_percent (displayRow [''AAPL'' \<mapsto> PInf] aapl_holding) = PInf
   \<and> is_finite (quantity big_holding) \<and> is_finite (purchase_price big_holding)
   \<and> cost_basis (displayRow Map.empty big_holding) = PInf
   \<and> gain_loss_percent (displayRow Map.empty big_holding) = NaN
   \<and> Map.empty (ticker toString_holding) = (None :: jsnum option)
   \<and> current_price (displayRow Map.empty toString_holding) = Inherited
   \<and> market_value (displayRow Map.empty toString_holding) = NaN
   \<and> gain_loss_percent (displayRow Map.empty toString_holding) = NaN
   \<and> is_finite (quantity tiny_holding) \<and> is_finite (purchase_price tiny_holding)
   \<and> is_finite (market_value (displayRow [''XYZ'' \<mapsto> Fin 1] tiny_holding))
   \<and> is_finite (cost_basis (displayRow [''XYZ'' \<mapsto> Fin 1] tiny_holding))
   \<and> gain_loss_percent (displayRow [''XYZ'' \<mapsto> Fin 1] tiny_holding) = PInf"
proof -
  have a: "gain_loss_percent (displayRow [''AAPL'' \<mapsto> PInf] aapl_holding) = PInf"
    by (simp add: displayRow_def aapl_holding_def or_zero_def js_sub_def price_number_def
        signed_inf_def rnd_eval)
  have b: "is_finite (quantity big_holding) \<and> is_finite (purchase_price big_holding)
   \<and> cost_basis (displayRow Map.empty big_holding) = PInf
   \<and> gain_loss_percent (displayRow Map.empty big_holding) = NaN"
    by (simp add: displayRow_def big_holding_def object_prototype_members_def js_sub_def
        price_number_def rnd_eval)
  have c: "Map.empty (ticker toString_holding) = (None :: jsnum option)
   \<and> current_price (displayRow Map.empty toString_holding) = Inherited
   \<and> market_value (displayRow Map.empty toString_holding) = NaN
   \<and> gain_loss_percent (displayRow Map.empty toString_holding) = NaN"
    by (simp add: displayRow_def toString_holding_def object_prototype_members_def js_sub_def
        price_number_def rnd_eval)
  have d: "is_finite (quantity tiny_holding) \<and> is_finite (purchase_price tiny_holding)
   \<and> is_finite (market_value (displayRow [''XYZ'' \<mapsto> Fin 1] tiny_holding))
   \<and> is_finite (cost_basis (displayRow [''XYZ'' \<mapsto> Fin 1] tiny_holding))
   \<and> gain_loss_percent (displayRow [''XYZ'' \<mapsto> Fin 1] tiny_holding) = PInf"
    using tiny_steps
    by (simp add: displayRow_def tiny_holding_def or_zero_def js_sub_def price_number_def
        signed_inf_def Let_def)
  from a b c d show ?thesis by blast
qed

text \<open>
  C1 (amended): for every holding and price map, the row built by \<^verbatim>\<open>fetchPortfolio\<close>
  has

  \<^item> the current price \<^verbatim>\<open>prices[ticker] || 0\<close>: the entry of the ticker when the map
    has one that is not \<open>NaN\<close> (the entry 0 included), 0 when the entry is \<open>NaN\<close>, 0
    when the map has no entry and the ticker is not the name of a member of
    \<^verbatim>\<open>Object.prototype\<close>, and otherwise the inherited member, with which the market
    value is \<open>NaN\<close>;
  \<^item> \<open>marketValue = quantity * currentPrice\<close>, \<open>costBasis = quantity * purchase_price\<close>,
    \<open>gainLoss = marketValue - costBasis\<close>;
  \<^item> \<open>gainLossPercent\<close> equal to 0 when \<open>costBasis\<close> is 0 and to
    \<open>gainLoss / costBasis * 100\<close> otherwise, so that no division by zero is performed;
    it is not \<open>NaN\<close> when market value and cost basis are finite (it can be infinite
    there, as the third row above shows).

  For the holding AAPL, quantity 10, bought at 100, and the price map
  \<open>{AAPL: 150}\<close>, the row has the market value 1500, the cost basis 1000, the gain
  500 and the percentage 50, and at the display rate 1 the cell shows the market
  value 1500.
\<close>

theorem C1_row_computation:
  "(\<forall>v. prices (ticker item) = Some v \<and> v \<noteq> NaN \<longrightarrow>
        current_price (displayRow prices item) = Price v)
   \<and> (prices (ticker item) = Some NaN \<longrightarrow> current_price (displayRow prices item) = Price (Fin 0))
   \<and> (prices (ticker item) = None \<and> ticker item \<notin> set object_prototype_members \<longrightarrow>
        current_price (displayRow prices item) = Price (Fin 0))
   \<and> (prices (ticker item) = None \<and> ticker item \<in> set object_prototype_members \<longrightarrow>
        current_price (displayRow prices item) = Inherited
        \<and> market_value (displayRow prices item) = NaN)
   \<and> market_value (displayRow prices item)
        = js_mul (quantity item) (price_number (current_price (displayRow prices item)))
   \<and> cost_basis (displayRow prices item) = js_mul (quantity item) (purchase_price item)
   \<and> gain_loss (displayRow prices item)
        = js_sub (market_value (displayRow prices item)) (cost_basis (displayRow prices item))
   \<and> gain_loss_percent (displayRow prices item)
        = (if cost_basis (displayRow prices item) = Fin 0 then Fin 0
           else js_mul (js_div (gain_loss (displayRow prices item)) (cost_basis (displayRow prices item)))
                  (Fin 100))
   \<and> (cost_basis (displayRow prices item) = Fin 0 \<longrightarrow>
        gain_loss_percent (displayRow prices item) = Fin 0)
   \<and> (is_finite (market_value (displayRow prices item)) \<and> is_finite (cost_basis (displayRow prices item))
        \<longrightarrow> gain_loss_percent (displayRow prices item) \<noteq> NaN)
   \<and> market_value (displayRow [''AAPL'' \<mapsto> Fin 150] aapl_holding) = Fin 1500
   \<and> cost_basis (displayRow [''AAPL'' \<mapsto> Fin 150] aapl_holding) = Fin 1000
   \<and> gain_loss (displayRow [''AAPL'' \<mapsto> Fin 150] aapl_holding) = Fin 500
   \<and> gain_loss_percent (displayRow [''AAPL'' \<mapsto> Fin 150] aapl_holding) = Fin 50
   \<and> cell_market_value (rowCells (displayRow [''AAPL'' \<mapsto> Fin 150] aapl_holding) (Fin 1)) = Fin 1500"
proof -
  have cur: "(\<forall>v. prices (ticker item) = Some v \<and> v \<noteq> NaN \<longrightarrow>
        current_price (displayRow prices item) = Price v)
   \<and> (prices (ticker item) = Some NaN \<longrightarrow> current_price (displayRow prices item) = Price (Fin 0))
   \<and> (prices (ticker item) = None \<and> ticker item \<notin> set object_prototype_members \<longrightarrow>
        current_price (displayRow prices item) = Price (Fin 0))"
    by (simp add: displayRow_def Let_def or_zero_cases)
  have inh: "prices (ticker item) = None \<and> ticker item \<in> set object_prototype_members \<longrightarrow>
        current_price (displayRow prices item) = Inherited
        \<and> market_value (displayRow prices item) = NaN"
    by (cases "quantity item") (simp_all add: displayRow_def Let_def price_number_def)
  have scen: "market_value (displayRow [''AAPL'' \<mapsto> Fin 150] aapl_holding) = Fin 1500
   \<and> cost_basis (displayRow [''AAPL'' \<mapsto> Fin 150] aapl_holding) = Fin 1000
   \<and> gain_loss (displayRow [''AAPL'' \<mapsto> Fin 150] aapl_holding) = Fin 500
   \<and> gain_loss_percent (displayRow [''AAPL'' \<mapsto> Fin 150] aapl_holding) = Fin 50
   \<and> cell_market_value (rowCells (displayRow [''AAPL'' \<mapsto> Fin 150] aapl_holding) (Fin 1)) = Fin 1500"
    by (simp add: aapl_row rowCells_def rnd_eval)
  have rest: "market_value (displayRow prices item)
        = js_mul (quantity item) (price_number (current_price (displayRow prices item)))
   \<and> cost_basis (displayRow prices item) = js_mul (quantity item) (purchase_price item)
   \<and> gain_loss (displayRow prices item)
        = js_sub (market_value (displayRow prices item)) (cost_basis (displayRow prices item))
   \<and> gain_loss_percent (displayRow prices item)
        = (if cost_basis (displayRow prices item) = Fin 0 then Fin 0
           else js_mul (js_div (gain_loss (displayRow prices item)) (cost_basis (displayRow prices item)))
                  (Fin 100))
   \<and> (cost_basis (displayRow prices item) = Fin 0 \<longrightarrow>
        gain_loss_percent (displayRow prices item) = Fin 0)"
    by (simp add: displayRow_def Let_def)
  have fin: "is_finite (market_value (displayRow prices item)) \<and> is_finite (cost_basis (displayRow prices item))
        \<longrightarrow> gain_loss_percent (displayRow prices item) \<noteq> NaN"
    using percent_not_NaN [of prices item] by blast
  from cur inh rest fin scen show ?thesis by (elim conjE) (intro conjI; assumption)
qed

text \<open>C1, witness: with the price map \<open>{MSFT: 25, NOPE: NaN}\<close>, a holding of MSFT has
  the current price 25, finite market value and cost basis and a percentage that is
  not \<open>NaN\<close>; a holding of NOPE has the current price 0; the scenario's holding, absent
  from the map, has the current price 0; the holding with the ticker
  \<^verbatim>\<open>toString\<close> reads the inherited member and has the market value \<open>NaN\<close>; and
  a holding bought at the price 0 has the cost basis 0 and the percentage 0.\<close>

theorem C1_row_computation_witness:
  "[''MSFT'' \<mapsto> Fin 25, ''NOPE'' \<mapsto> NaN] ''MSFT'' = Some (Fin 25) \<and> Fin 25 \<noteq> NaN
   \<and> current_price (displayRow [''MSFT'' \<mapsto> Fin 25, ''NOPE'' \<mapsto> NaN]
         \<lparr> item_id = ''h2'', ticker = ''MSFT'', quantity = Fin 3, purchase_price = Fin 20,
           purchase_date = ''2024-03-01'' \<rparr>) = Price (Fin 25)
   \<and> [''MSFT'' \<mapsto> Fin 25, ''NOPE'' \<mapsto> NaN] ''NOPE'' = Some NaN
   \<and> current_price (displayRow [''MSFT'' \<mapsto> Fin 25, ''NOPE'' \<mapsto> NaN]
         \<lparr> item_id = ''h6'', ticker = ''NOPE'', quantity = Fin 3, purchase_price = Fin 20,
           purchase_date = ''2024-03-01'' \<rparr>) = Price (Fin 0)
   \<and> [''MSFT'' \<mapsto> Fin 25, ''NOPE'' \<mapsto> NaN] (ticker aapl_holding) = None
   \<and> ticker aapl_holding \<notin> set object_prototype_members
   \<and> current_price (displayRow [''MSFT'' \<mapsto> Fin 25, ''NOPE'' \<mapsto> NaN] aapl_holding) = Price (Fin 0)
   \<and> ticker toString_holding \<in> set object_prototype_members
   \<and> current_price (displayRow [''MSFT'' \<mapsto> Fin 25, ''NOPE'' \<mapsto> NaN] toString_holding) = Inherited
   \<and> market_value (displayRow [''MSFT'' \<mapsto> Fin 25, ''NOPE'' \<mapsto> NaN] toString_holding) = NaN
   \<and> cost_basis (displayRow [''MSFT'' \<mapsto> Fin 25, ''NOPE'' \<mapsto> NaN]
         \<lparr> item_id = ''h7'', ticker = ''MSFT'', quantity = Fin 3, purchase_price = Fin 0,
           purchase_date = ''2024-03-01'' \<rparr>) = Fin 0
   \<and> gain_loss_percent (displayRow [''MSFT'' \<mapsto> Fin 25, ''NOPE'' \<mapsto> NaN]
         \<lparr> item_id = ''h7'', ticker = ''MSFT'', quantity = Fin 3, purchase_price = Fin 0,
           purchase_date = ''2024-03-01'' \<rparr>) = Fin 0
   \<and> is_finite (market_value (displayRow [''MSFT'' \<mapsto> Fin 25, ''NOPE'' \<mapsto> NaN]
         \<lparr> item_id = ''h2'', ticker = ''MSFT'', quantity = Fin 3, purchase_price = Fin 20,
           purchase_date = ''2024-03-01'' \<rparr>))
   \<and> is_finite (cost_basis (displayRow [''MSFT'' \<mapsto> Fin 25, ''NOPE'' \<mapsto> NaN]
         \<lparr> item_id = ''h2'', ticker = ''MSFT'', quantity = Fin 3, purchase_price = Fin 20,
           purchase_date = ''2024-03-01'' \<rparr>))
   \<and> gain_loss_percent (displayRow [''MSFT'' \<mapsto> Fin 25, ''NOPE'' \<mapsto> NaN]
         \<lparr> item_id = ''h2'', ticker = ''MSFT'', quantity = Fin 3, purchase_price = Fin 20,
           purchase_date = ''2024-03-01'' \<rparr>) \<noteq> NaN"
proof -
  let ?prices = "[''MSFT'' \<mapsto> Fin 25, ''NOPE'' \<mapsto> NaN]"
  let ?msft = "\<lparr> item_id = ''h2'', ticker = ''MSFT'', quantity = Fin 3, purchase_price = Fin 20,
           purchase_date = ''2024-03-01'' \<rparr>"
  let ?nope = "\<lparr> item_id = ''h6'', ticker = ''NOPE'', quantity = Fin 3, purchase_price = Fin 20,
           purchase_date = ''2024-03-01'' \<rparr>"
  let ?free = "\<lparr> item_id = ''h7'', ticker = ''MSFT'', quantity = Fin 3, purchase_price = Fin 0,
           purchase_date = ''2024-03-01'' \<rparr>"
  have p1: "?prices (ticker ?msft) = Some (Fin 25) \<and> Fin 25 \<noteq> NaN" by simp
  with C1_row_computation [of ?prices ?msft]
  have a: "current_price (displayRow ?prices ?msft) = Price (Fin 25)" by blast
  have p2: "?prices (ticker ?nope) = Some NaN" by simp
  with C1_row_computation [of ?prices ?nope]
  have b: "current_price (displayRow ?prices ?nope) = Price (Fin 0)" by blast
  have p3: "?prices (ticker aapl_holding) = None \<and> ticker aapl_holding \<notin> set object_prototype_members"
    by (simp add: aapl_holding_def object_prototype_members_def)
  with C1_row_computation [of ?prices aapl_holding]
  have c: "current_price (displayRow ?prices aapl_holding) = Price (Fin 0)" by blast
  have p4: "?prices (ticker toString_holding) = None \<and> ticker toString_holding \<in> set object_prototype_members"
    by (simp add: toString_holding_def object_prototype_members_def)
  with C1_row_computation [of ?prices toString_holding]
  have d: "current_price (displayRow ?prices toString_holding) = Inherited
        \<and> market_value (displayRow ?prices toString_holding) = NaN" by blast
  from C1_row_computation [of ?prices ?free]
  have "cost_basis (displayRow ?prices ?free) = js_mul (quantity ?free) (purchase_price ?free)"
    by blast
  then have e: "cost_basis (displayRow ?prices ?free) = Fin 0"
    by (simp add: rnd_zero)
  with C1_row_computation [of ?prices ?free]
  have f: "gain_loss_percent (displayRow ?prices ?free) = Fin 0" by blast
  have g: "is_finite (market_value (displayRow ?prices ?msft))
      \<and> is_finite (cost_basis (displayRow ?prices ?msft))"
    by (simp add: displayRow_def or_zero_def price_number_def rnd_eval)
  with C1_row_computation [of ?prices ?msft]
  have h: "gain_loss_percent (displayRow ?prices ?msft) \<noteq> NaN" by blast
  from p1 a p2 b p3 c p4 d e f g h show ?thesis by simp
qed

section \<open>Totals of the portfolio table\<close>

lemma totalMarketValue_sum:
  "totalMarketValue hs r = js_mul (js_sum (map market_value hs)) r"
  by (simp add: totalMarketValue_def js_sum_def foldl_map)

lemma totalCostBasis_sum:
  "totalCostBasis hs r = js_mul (js_sum (map cost_basis hs)) r"
  by (simp add: totalCostBasis_def js_sum_def foldl_map)

lemma totals_empty:
  "totalMarketValue [] (Fin x) = Fin 0 \<and> totalCostBasis [] (Fin x) = Fin 0
   \<and> totalGainLoss [] (Fin x) = Fin 0 \<and> totalGainLossPercent [] (Fin x) = Fin 0"
  by (simp add: totalMarketValue_def totalCostBasis_def totalGainLoss_def
      totalGainLossPercent_def js_sub_def rnd_zero)

lemma one_five_rows:
  "market_value (displayRow [''XYZ'' \<mapsto> Fin 1] unit_holding) = Fin 1
   \<and> market_value (displayRow [''XYZ'' \<mapsto> Fin 5] unit_holding) = Fin 5"
  by (simp add: displayRow_def unit_holding_def or_zero_def price_number_def rnd_eval)

lemma tenth: "rnd 0.1 = Fin (3602879701896397 / 36028797018963968)"
  by (simp add: rnd_eval)

text \<open>
  C2, as the claim states it, fails in two places.

  \<^item> The state \<^verbatim>\<open>exchangeRate\<close> is a number; for the empty list of holdings and the
    rate \<open>+Infinity\<close> the product \<open>0 * Infinity\<close> is \<open>NaN\<close>, so none of the four totals
    is 0.
  \<^item> Converting the sum does not equal summing the converted rows: the numbers are
    doubles, and each product and sum is rounded. For two rows with the market
    values 1 and 5 and the rate 0.1, the total \<open>(1 + 5) * 0.1\<close> is
    0.6000000000000001, and the sum of the converted rows \<open>1 * 0.1 + 5 * 0.1\<close> is 0.6.
\<close>

theorem C2_totals_counterexample:
  "totalMarketValue [] PInf = NaN \<and> totalCostBasis [] PInf = NaN
   \<and> totalGainLoss [] PInf = NaN \<and> totalGainLossPercent [] PInf = NaN
   \<and> totalMarketValue
        [displayRow [''XYZ'' \<mapsto> Fin 1] unit_holding, displayRow [''XYZ'' \<mapsto> Fin 5] unit_holding]
        (rnd 0.1)
       = Fin (1351079888211149 / 2251799813685248)
   \<and> js_sum (map (\<lambda>h. js_mul (market_value h) (rnd 0.1))
        [displayRow [''XYZ'' \<mapsto> Fin 1] unit_holding, displayRow [''XYZ'' \<mapsto> Fin 5] unit_holding])
       = Fin (5404319552844595 / 9007199254740992)
   \<and> totalMarketValue
        [displayRow [''XYZ'' \<mapsto> Fin 1] unit_holding, displayRow [''XYZ'' \<mapsto> Fin 5] unit_holding]
        (rnd 0.1)
       \<noteq> js_sum (map (\<lambda>h. js_mul (market_value h) (rnd 0.1))
        [displayRow [''XYZ'' \<mapsto> Fin 1] unit_holding, displayRow [''XYZ'' \<mapsto> Fin 5] unit_holding])"
proof -
  have a: "totalMarketValue [] PInf = NaN \<and> totalCostBasis [] PInf = NaN
   \<and> totalGainLoss [] PInf = NaN \<and> totalGainLossPercent [] PInf = NaN"
    by (simp add: totalMarketValue_def totalCostBasis_def totalGainLoss_def
      totalGainLossPercent_def js_sub_def signed_inf_def)
  have b: "totalMarketValue
        [displayRow [''XYZ'' \<mapsto> Fin 1] unit_holding, displayRow [''XYZ'' \<mapsto> Fin 5] unit_holding]
        (rnd 0.1)
       = Fin (1351079888211149 / 2251799813685248)"
    by (simp add: totalMarketValue_def one_five_rows tenth) (simp add: rnd_eval)
  have c: "js_sum (map (\<lambda>h. js_mul (market_value h) (rnd 0.1))
        [displayRow [''XYZ'' \<mapsto> Fin 1] unit_holding, displayRow [''XYZ'' \<mapsto> Fin 5] unit_holding])
       = Fin (5404319552844595 / 9007199254740992)"
    by (simp add: js_sum_def one_five_rows tenth) (simp add: rnd_eval)
  have ne: "Fin (1351079888211149 / 2251799813685248) \<noteq> Fin (5404319552844595 / 9007199254740992)"
    by simp
  have d: "totalMarketValue
        [displayRow [''XYZ'' \<mapsto> Fin 1] unit_holding, displayRow [''XYZ'' \<mapsto> Fin 5] unit_holding]
        (rnd 0.1)
       \<noteq> js_sum (map (\<lambda>h. js_mul (market_value h) (rnd 0.1))
        [displayRow [''XYZ'' \<mapsto> Fin 1] unit_holding, displayRow [''XYZ'' \<mapsto> Fin 5] unit_holding])"
    unfolding b c by (rule ne)
  from a b c d show ?thesis by blast
qed

text \<open>
  C2 (amended): for every list of display rows and every display rate,
  \<open>totalMarketValue\<close> is the sum of the rows' market values times the rate,
  \<open>totalCostBasis\<close> the sum of the rows' cost bases times the rate,
  \<open>totalGainLoss = totalMarketValue - totalCostBasis\<close>, and \<open>totalGainLossPercent\<close>
  is computed from these converted totals, with 0 when the converted cost basis is
  0 (so no division by zero is performed). For the empty list of holdings and
  every finite rate all four totals are 0.
\<close>

theorem C2_totals:
  "totalMarketValue hs r = js_mul (js_sum (map market_value hs)) r
   \<and> totalCostBasis hs r = js_mul (js_sum (map cost_basis hs)) r
   \<and> totalGainLoss hs r = js_sub (totalMarketValue hs r) (totalCostBasis hs r)
   \<and> totalGainLossPercent hs r
        = (if totalCostBasis hs r = Fin 0 then Fin 0
           else js_mul (js_div (totalGainLoss hs r) (totalCostBasis hs r)) (Fin 100))
   \<and> (totalCostBasis hs r = Fin 0 \<longrightarrow> totalGainLossPercent hs r = Fin 0)
   \<and> (is_finite r \<longrightarrow>
          totalMarketValue [] r = Fin 0 \<and> totalCostBasis [] r = Fin 0
        \<and> totalGainLoss [] r = Fin 0 \<and> totalGainLossPercent [] r = Fin 0)"
proof -
  have emp: "is_finite r \<longrightarrow>
          totalMarketValue [] r = Fin 0 \<and> totalCostBasis [] r = Fin 0
        \<and> totalGainLoss [] r = Fin 0 \<and> totalGainLossPercent [] r = Fin 0"
    using totals_empty by (auto simp: is_finite_iff)
  have defs: "totalGainLoss hs r = js_sub (totalMarketValue hs r) (totalCostBasis hs r)
   \<and> totalGainLossPercent hs r
        = (if totalCostBasis hs r = Fin 0 then Fin 0
           else js_mul (js_div (totalGainLoss hs r) (totalCostBasis hs r)) (Fin 100))
   \<and> (totalCostBasis hs r = Fin 0 \<longrightarrow> totalGainLossPercent hs r = Fin 0)"
    by (simp add: totalGainLoss_def totalGainLossPercent_def)
  from emp defs totalMarketValue_sum [of hs r] totalCostBasis_sum [of hs r]
  show ?thesis by blast
qed

text \<open>C2, witness: the scenario's row and the rate 0.5; the converted totals are
  750 and 500, the gain is 250 and the percentage 50; the totals of the empty list
  are 0 at that rate; and at the rate 0 the converted cost basis of the scenario's
  row is 0 and so is the percentage.\<close>

theorem C2_totals_witness:
  "is_finite (Fin 0.5)
   \<and> totalMarketValue [displayRow [''AAPL'' \<mapsto> Fin 150] aapl_holding] (Fin 0.5) = Fin 750
   \<and> totalCostBasis [displayRow [''AAPL'' \<mapsto> Fin 150] aapl_holding] (Fin 0.5) = Fin 500
   \<and> totalGainLoss [displayRow [''AAPL'' \<mapsto> Fin 150] aapl_holding] (Fin 0.5) = Fin 250
   \<and> totalGainLossPercent [displayRow [''AAPL'' \<mapsto> Fin 150] aapl_holding] (Fin 0.5) = Fin 50
   \<and> totalMarketValue [] (Fin 0.5) = Fin 0 \<and> totalCostBasis [] (Fin 0.5) = Fin 0
   \<and> totalGainLoss [] (Fin 0.5) = Fin 0 \<and> totalGainLossPercent [] (Fin 0.5) = Fin 0
   \<and> totalCostBasis [displayRow [''AAPL'' \<mapsto> Fin 150] aapl_holding] (Fin 0) = Fin 0
   \<and> totalGainLossPercent [displayRow [''AAPL'' \<mapsto> Fin 150] aapl_holding] (Fin 0) = Fin 0"
proof -
  let ?rows = "[displayRow [''AAPL'' \<mapsto> Fin 150] aapl_holding]"
  note T = C2_totals [of ?rows "Fin 0.5"]
  have fin: "is_finite (Fin 0.5)" by simp
  have sums: "js_sum (map market_value ?rows) = Fin 1500 \<and> js_sum (map cost_basis ?rows) = Fin 1000"
    by (simp add: aapl_row js_sum_def rnd_eval)
  from T sums have mv: "totalMarketValue ?rows (Fin 0.5) = js_mul (Fin 1500) (Fin 0.5)"
    and cb: "totalCostBasis ?rows (Fin 0.5) = js_mul (Fin 1000) (Fin 0.5)"
    by simp_all
  from mv have mv': "totalMarketValue ?rows (Fin 0.5) = Fin 750" by (simp add: rnd_eval)
  from cb have cb': "totalCostBasis ?rows (Fin 0.5) = Fin 500" by (simp add: rnd_eval)
  from T have "totalGainLoss ?rows (Fin 0.5)
      = js_sub (totalMarketValue ?rows (Fin 0.5)) (totalCostBasis ?rows (Fin 0.5))"
    by blast
  with mv' cb' have gl: "totalGainLoss ?rows (Fin 0.5) = Fin 250"
    by (simp add: js_sub_def rnd_eval)
  from T have "totalGainLossPercent ?rows (Fin 0.5)
        = (if totalCostBasis ?rows (Fin 0.5) = Fin 0 then Fin 0
           else js_mul (js_div (totalGainLoss ?rows (Fin 0.5)) (totalCostBasis ?rows (Fin 0.5))) (Fin 100))"
    by blast
  with cb' gl have pc: "totalGainLossPercent ?rows (Fin 0.5) = Fin 50"
    by (simp add: rnd_eval)
  from T fin have emp: "totalMarketValue [] (Fin 0.5) = Fin 0 \<and> totalCostBasis [] (Fin 0.5) = Fin 0
   \<and> totalGainLoss [] (Fin 0.5) = Fin 0 \<and> totalGainLossPercent [] (Fin 0.5) = Fin 0"
    by blast
  note Z = C2_totals [of ?rows "Fin 0"]
  from Z sums have "totalCostBasis ?rows (Fin 0) = js_mul (Fin 1000) (Fin 0)"
    by simp
  then have z: "totalCostBasis ?rows (Fin 0) = Fin 0"
    by (simp add: rnd_zero)
  with Z have zp: "totalGainLossPercent ?rows (Fin 0) = Fin 0"
    by blast
  from fin mv' cb' gl pc emp z zp show ?thesis by blast
qed

section \<open>Percentages and the display rate\<close>

lemma rowCells_percent:
  "cell_gain_loss_percent (rowCells h r) = gain_loss_percent h
   \<and> cell_gain_loss (rowCells h r) = js_mul (gain_loss h) r"
  by (simp add: rowCells_def)

lemma displayRow_percent:
  "gain_loss_percent (displayRow prices item)
     = (if cost_basis (displayRow prices item) = Fin 0 then Fin 0
        else js_mul (js_div (gain_loss (displayRow prices item)) (cost_basis (displayRow prices item)))
               (Fin 100))"
  by (simp add: displayRow_def Let_def)

lemma total_percent_formula:
  "totalGainLossPercent hs r
     = (if js_mul (js_sum (map cost_basis hs)) r = Fin 0 then Fin 0
        else js_mul
               (js_div
                  (js_sub (js_mul (js_sum (map market_value hs)) r)
                          (js_mul (js_sum (map cost_basis hs)) r))
                  (js_mul (js_sum (map cost_basis hs)) r))
               (Fin 100))"
  by (simp add: totalGainLossPercent_def totalGainLoss_def totalMarketValue_sum totalCostBasis_sum)

text \<open>
  C9, as the claim states it for every rate \<open>r > 0\<close>, fails: the total percentage is
  computed from the converted totals, and the rate does not cancel in doubles.

  \<^item> For one row with the market value 3 and the cost basis 1, the rate 1 gives the
    total percentage 200 and the rate 0.1 gives 200.00000000000006.
  \<^item> The rate \<open>+Infinity\<close> is greater than 0: for the scenario's row both converted
    totals are \<open>+Infinity\<close>, their difference is \<open>NaN\<close>, and the total percentage is
    \<open>NaN\<close>, where the rate 1 gives 50.
\<close>

theorem C9_rate_counterexample:
  "js_gt (rnd 0.1) (Fin 0)
   \<and> totalGainLossPercent [displayRow [''XYZ'' \<mapsto> Fin 3] unit_holding] (rnd 0.1)
        = Fin (3518437208883201 / 17592186044416)
   \<and> totalGainLossPercent [displayRow [''XYZ'' \<mapsto> Fin 3] unit_holding] (Fin 1) = Fin 200
   \<and> totalGainLossPercent [displayRow [''XYZ'' \<mapsto> Fin 3] unit_holding] (rnd 0.1)
        \<noteq> totalGainLossPercent [displayRow [''XYZ'' \<mapsto> Fin 3] unit_holding] (Fin 1)
   \<and> js_gt PInf (Fin 0)
   \<and> totalGainLossPercent [displayRow [''AAPL'' \<mapsto> Fin 150] aapl_holding] PInf = NaN
   \<and> totalGainLossPercent [displayRow [''AAPL'' \<mapsto> Fin 150] aapl_holding] (Fin 1) = Fin 50"
proof -
  have a: "js_gt (rnd 0.1) (Fin 0)"
    by (simp add: tenth js_gt_def)
  have b: "totalGainLossPercent [displayRow [''XYZ'' \<mapsto> Fin 3] unit_holding] (rnd 0.1)
        = Fin (3518437208883201 / 17592186044416)"
    by (simp add: total_percent_formula js_sum_def unit_row tenth js_sub_def) (simp add: rnd_eval)
  have c: "totalGainLossPercent [displayRow [''XYZ'' \<mapsto> Fin 3] unit_holding] (Fin 1) = Fin 200"
    by (simp add: total_percent_formula js_sum_def unit_row js_sub_def) (simp add: rnd_eval)
  have d: "js_gt PInf (Fin 0)
   \<and> totalGainLossPercent [displayRow [''AAPL'' \<mapsto> Fin 150] aapl_holding] PInf = NaN"
    by (simp add: total_percent_formula js_sum_def aapl_row js_sub_def js_gt_def signed_inf_def rnd_eval)
  have e: "totalGainLossPercent [displayRow [''AAPL'' \<mapsto> Fin 150] aapl_holding] (Fin 1) = Fin 50"
    by (simp add: total_percent_formula js_sum_def aapl_row js_sub_def) (simp add: rnd_eval)
  have ne: "Fin (3518437208883201 / 17592186044416) \<noteq> Fin 200"
    by simp
  have f: "totalGainLossPercent [displayRow [''XYZ'' \<mapsto> Fin 3] unit_holding] (rnd 0.1)
        \<noteq> totalGainLossPercent [displayRow [''XYZ'' \<mapsto> Fin 3] unit_holding] (Fin 1)"
    unfolding b c by (rule ne)
  from a b c d e f show ?thesis by blast
qed

text \<open>
  C9 (amended): the percentage a table row shows is the row's \<open>gain_loss_percent\<close>,
  which \<^verbatim>\<open>fetchPortfolio\<close> computes from the unconverted values (0 when the cost
  basis is 0, else \<open>gain_loss / cost_basis * 100\<close>): no exchange rate is applied to
  it, while the amount beside it is \<open>gain_loss * exchangeRate\<close>. The total
  percentage is computed from the converted totals: it is 0 when the converted
  total cost basis is 0, and otherwise the difference of the converted totals
  divided by the converted total cost basis, times 100.
\<close>

theorem C9_percent_and_rate:
  "cell_gain_loss_percent (rowCells h r) = gain_loss_percent h
   \<and> cell_gain_loss (rowCells h r) = js_mul (gain_loss h) r
   \<and> cell_gain_loss_percent (rowCells (displayRow prices item) r)
        = (if cost_basis (displayRow prices item) = Fin 0 then Fin 0
           else js_mul (js_div (gain_loss (displayRow prices item)) (cost_basis (displayRow prices item)))
                  (Fin 100))
   \<and> totalGainLossPercent hs r
        = (if js_mul (js_sum (map cost_basis hs)) r = Fin 0 then Fin 0
           else js_mul
                  (js_div
                     (js_sub (js_mul (js_sum (map market_value hs)) r)
                             (js_mul (js_sum (map cost_basis hs)) r))
                     (js_mul (js_sum (map cost_basis hs)) r))
                  (Fin 100))"
proof -
  have a: "cell_gain_loss_percent (rowCells (displayRow prices item) r)
        = (if cost_basis (displayRow prices item) = Fin 0 then Fin 0
           else js_mul (js_div (gain_loss (displayRow prices item)) (cost_basis (displayRow prices item)))
                  (Fin 100))"
    using rowCells_percent [of "displayRow prices item" r] displayRow_percent [of prices item]
    by (simp only:)
  from rowCells_percent [of h r] a total_percent_formula [of hs r] show ?thesis by blast
qed

text \<open>C9, witness: the scenario's row at the rate 0.5; the row shows 50 percent
  beside the converted gain 250, and the total percentage is 50.\<close>

theorem C9_percent_and_rate_witness:
  "cell_gain_loss_percent (rowCells (displayRow [''AAPL'' \<mapsto> Fin 150] aapl_holding) (Fin 0.5)) = Fin 50
   \<and> cell_gain_loss (rowCells (displayRow [''AAPL'' \<mapsto> Fin 150] aapl_holding) (Fin 0.5)) = Fin 250
   \<and> totalGainLossPercent [displayRow [''AAPL'' \<mapsto> Fin 150] aapl_holding] (Fin 0.5) = Fin 50"
proof -
  let ?row = "displayRow [''AAPL'' \<mapsto> Fin 150] aapl_holding"
  note T = C9_percent_and_rate [of ?row "Fin 0.5" "[''AAPL'' \<mapsto> Fin 150]" aapl_holding "[?row]"]
  from T have "cell_gain_loss_percent (rowCells ?row (Fin 0.5)) = gain_loss_percent ?row"
    by blast
  then have a: "cell_gain_loss_percent (rowCells ?row (Fin 0.5)) = Fin 50"
    by (simp add: aapl_row)
  from T have "cell_gain_loss (rowCells ?row (Fin 0.5)) = js_mul (gain_loss ?row) (Fin 0.5)"
    by blast
  then have b: "cell_gain_loss (rowCells ?row (Fin 0.5)) = Fin 250"
    by (simp add: aapl_row rnd_eval)
  from T have "totalGainLossPercent [?row] (Fin 0.5)
        = (if js_mul (js_sum (map cost_basis [?row])) (Fin 0.5) = Fin 0 then Fin 0
           else js_mul
                  (js_div
                     (js_sub (js_mul (js_sum (map market_value [?row])) (Fin 0.5))
                             (js_mul (js_sum (map cost_basis [?row])) (Fin 0.5)))
                     (js_mul (js_sum (map cost_basis [?row])) (Fin 0.5)))
                  (Fin 100))"
    by blast
  then have c: "totalGainLossPercent [?row] (Fin 0.5) = Fin 50"
    by (simp add: js_sum_def aapl_row js_sub_def) (simp add: rnd_eval)
  from a b c show ?thesis by blast
qed

section \<open>Ticker lookup\<close>

lemma get_prop_JStr:
  "get_prop v p = Inr (JStr s) \<longleftrightarrow> (\<exists>kvs. v = JObj kvs \<and> map_of kvs p = Some (JStr s))"
  by (cases v) (auto split: option.splits if_splits)

lemma toUpperCase_empty: "toUpperCase s = [] \<longleftrightarrow> s = []"
  by (simp add: toUpperCase_def)

lemma checkTickerAndName_found:
  assumes "tkr \<noteq> []" "\<not> key_missing k"
    and "net 0 (details_url tkr k) = Inr (JObj obj)"
    and "map_of obj ''status'' = Some (JStr ''OK'')"
    and "map_of obj ''results'' = Some (JObj results)"
    and "map_of results ''ticker'' = Some (JStr (toUpperCase tkr))"
  shows "fst (checkTickerAndName k net tkr) =
           \<lparr> exists = True,
             name = (case map_of results ''name'' of
                       None \<Rightarrow> JStr (toUpperCase tkr)
                     | Some n \<Rightarrow> if truthy n then n else JStr (toUpperCase tkr)) \<rparr>"
  using assms
  by (simp add: checkTickerAndName_def and_then_def split: option.splits)

lemma checkTickerAndName_exists_D:
  assumes "exists (fst (checkTickerAndName k net tkr))"
  shows "tkr \<noteq> [] \<and> \<not> key_missing k \<and>
         (\<exists>obj results. net 0 (details_url tkr k) = Inr (JObj obj)
            \<and> map_of obj ''status'' = Some (JStr ''OK'')
            \<and> map_of obj ''results'' = Some (JObj results)
            \<and> map_of results ''ticker'' = Some (JStr (toUpperCase tkr)))"
proof -
  from assms have ne: "tkr \<noteq> []" and key: "\<not> key_missing k"
    by (auto simp: checkTickerAndName_def not_found_def split: if_splits)
  from assms ne key obtain data where data: "net 0 (details_url tkr k) = Inr data"
    by (cases "net 0 (details_url tkr k)") (auto simp: checkTickerAndName_def and_then_def not_found_def)
  from assms ne key data have st: "get_prop data ''status'' = Inr (JStr ''OK'')"
    by (cases "get_prop data ''status''")
       (auto simp: checkTickerAndName_def and_then_def not_found_def split: if_splits)
  then obtain obj where obj: "data = JObj obj" "map_of obj ''status'' = Some (JStr ''OK'')"
    by (auto simp: get_prop_JStr)
  define r where "r = (case map_of obj ''results'' of None \<Rightarrow> JUndefined | Some v \<Rightarrow> v)"
  from assms ne key data obj have tk: "truthy r \<and> get_prop r ''ticker'' = Inr (JStr (toUpperCase tkr))"
    unfolding r_def
    by (cases "get_prop (case map_of obj ''results'' of None \<Rightarrow> JUndefined | Some v \<Rightarrow> v) ''ticker''")
       (auto simp: checkTickerAndName_def and_then_def not_found_def split: if_splits)
  then obtain results where results: "r = JObj results" "map_of results ''ticker'' = Some (JStr (toUpperCase tkr))"
    by (auto simp: get_prop_JStr)
  from results(1) have "map_of obj ''results'' = Some (JObj results)"
    unfolding r_def by (auto split: option.splits)
  with ne key data obj results show ?thesis by auto
qed

lemma checkTickerAndName_not_exists:
  "\<not> exists (fst (checkTickerAndName k net tkr)) \<Longrightarrow> fst (checkTickerAndName k net tkr) = not_found"
  by (auto simp: checkTickerAndName_def and_then_def not_found_def split: if_splits sum.splits)

text \<open>
  C4: for every symbol, API key and network, \<^verbatim>\<open>checkTickerAndName\<close> returns
  \<open>exists: true\<close> if and only if the symbol is non-empty, the API key is
  configured, the request does not throw, and the parsed response is an object
  with status \<^verbatim>\<open>"OK"\<close> whose \<open>results\<close> is an object with the field \<open>ticker\<close> equal
  to the upper-cased symbol. In every other case the result is
  \<open>{exists: false, name: null}\<close>: so for the empty symbol, a missing key, a thrown
  error (which is caught, the result type has no error), and a result whose ticker
  is not the upper-cased symbol.
\<close>

theorem C4_exists_iff:
  "(exists (fst (checkTickerAndName k net tkr)) \<longleftrightarrow>
      tkr \<noteq> [] \<and> \<not> key_missing k \<and>
      (\<exists>obj results. net 0 (details_url tkr k) = Inr (JObj obj)
         \<and> map_of obj ''status'' = Some (JStr ''OK'')
         \<and> map_of obj ''results'' = Some (JObj results)
         \<and> map_of results ''ticker'' = Some (JStr (toUpperCase tkr))))
   \<and> (\<not> exists (fst (checkTickerAndName k net tkr)) \<longrightarrow>
         fst (checkTickerAndName k net tkr) = \<lparr> exists = False, name = JNull \<rparr>)
   \<and> fst (checkTickerAndName k net []) = \<lparr> exists = False, name = JNull \<rparr>
   \<and> (key_missing k \<longrightarrow> fst (checkTickerAndName k net tkr) = \<lparr> exists = False, name = JNull \<rparr>)
   \<and> (net 0 (details_url tkr k) = Inl e \<longrightarrow>
         fst (checkTickerAndName k net tkr) = \<lparr> exists = False, name = JNull \<rparr>)
   \<and> (net 0 (details_url tkr k) = Inr (JObj obj') \<and> map_of obj' ''results'' = Some (JObj results')
        \<and> map_of results' ''ticker'' \<noteq> Some (JStr (toUpperCase tkr)) \<longrightarrow>
         fst (checkTickerAndName k net tkr) = \<lparr> exists = False, name = JNull \<rparr>)"
proof -
  let ?r = "fst (checkTickerAndName k net tkr)"
  let ?cond = "tkr \<noteq> [] \<and> \<not> key_missing k \<and>
      (\<exists>obj results. net 0 (details_url tkr k) = Inr (JObj obj)
         \<and> map_of obj ''status'' = Some (JStr ''OK'')
         \<and> map_of obj ''results'' = Some (JObj results)
         \<and> map_of results ''ticker'' = Some (JStr (toUpperCase tkr)))"
  have iff: "exists ?r \<longleftrightarrow> ?cond"
  proof
    assume "exists ?r"
    then show ?cond by (rule checkTickerAndName_exists_D)
  next
    assume ?cond
    then obtain obj results where
      "tkr \<noteq> []" "\<not> key_missing k" "net 0 (details_url tkr k) = Inr (JObj obj)"
      "map_of obj ''status'' = Some (JStr ''OK'')"
      "map_of obj ''results'' = Some (JObj results)"
      "map_of results ''ticker'' = Some (JStr (toUpperCase tkr))"
      by blast
    then show "exists ?r"
      using checkTickerAndName_found [of tkr k net obj results] by simp
  qed
  have other: "\<not> exists ?r \<longrightarrow> ?r = \<lparr> exists = False, name = JNull \<rparr>"
    using checkTickerAndName_not_exists [of k net tkr] by (simp add: not_found_def)
  have emp: "fst (checkTickerAndName k net []) = \<lparr> exists = False, name = JNull \<rparr>"
    by (simp add: checkTickerAndName_def not_found_def)
  have nokey: "key_missing k \<longrightarrow> ?r = \<lparr> exists = False, name = JNull \<rparr>"
    by (simp add: checkTickerAndName_def not_found_def)
  have neterr: "net 0 (details_url tkr k) = Inl e \<longrightarrow> ?r = \<lparr> exists = False, name = JNull \<rparr>"
    by (simp add: checkTickerAndName_def not_found_def and_then_def)
  have mism: "net 0 (details_url tkr k) = Inr (JObj obj') \<and> map_of obj' ''results'' = Some (JObj results')
        \<and> map_of results' ''ticker'' \<noteq> Some (JStr (toUpperCase tkr)) \<longrightarrow>
         ?r = \<lparr> exists = False, name = JNull \<rparr>"
    using iff other by auto
  from iff other emp nokey neterr mism show ?thesis by blast
qed

text \<open>
  C10: whenever \<^verbatim>\<open>checkTickerAndName\<close> returns \<open>exists: true\<close>, the returned name
  is neither \<^verbatim>\<open>null\<close> nor \<^verbatim>\<open>undefined\<close> (it is truthy): it is the field \<open>name\<close>
  of the matched result when that is truthy, and the upper-cased symbol when the
  field is missing or falsy (the empty string in particular).
\<close>

theorem C10_verified_name:
  "exists (fst (checkTickerAndName k net tkr)) \<longrightarrow>
     name (fst (checkTickerAndName k net tkr)) \<noteq> JNull
     \<and> name (fst (checkTickerAndName k net tkr)) \<noteq> JUndefined
     \<and> truthy (name (fst (checkTickerAndName k net tkr)))
     \<and> (\<exists>obj results. net 0 (details_url tkr k) = Inr (JObj obj)
           \<and> map_of obj ''results'' = Some (JObj results)
           \<and> map_of results ''ticker'' = Some (JStr (toUpperCase tkr))
           \<and> name (fst (checkTickerAndName k net tkr))
               = (case map_of results ''name'' of
                    None \<Rightarrow> JStr (toUpperCase tkr)
                  | Some n \<Rightarrow> if truthy n then n else JStr (toUpperCase tkr)))"
proof
  let ?r = "fst (checkTickerAndName k net tkr)"
  assume ex: "exists ?r"
  from checkTickerAndName_exists_D [OF ex] obtain obj results where
    h: "tkr \<noteq> []" "\<not> key_missing k" "net 0 (details_url tkr k) = Inr (JObj obj)"
      "map_of obj ''status'' = Some (JStr ''OK'')"
      "map_of obj ''results'' = Some (JObj results)"
      "map_of results ''ticker'' = Some (JStr (toUpperCase tkr))"
    by blast
  from h checkTickerAndName_found [of tkr k net obj results]
  have nm: "name ?r = (case map_of results ''name'' of
                    None \<Rightarrow> JStr (toUpperCase tkr)
                  | Some n \<Rightarrow> if truthy n then n else JStr (toUpperCase tkr))"
    by simp
  from h(1) have up: "truthy (JStr (toUpperCase tkr))"
    by (simp add: toUpperCase_empty)
  from nm up have tr: "truthy (name ?r)"
    by (auto split: option.splits)
  then have "name ?r \<noteq> JNull \<and> name ?r \<noteq> JUndefined"
    by auto
  with tr nm h show "name ?r \<noteq> JNull \<and> name ?r \<noteq> JUndefined \<and> truthy (name ?r)
     \<and> (\<exists>obj results. net 0 (details_url tkr k) = Inr (JObj obj)
           \<and> map_of obj ''results'' = Some (JObj results)
           \<and> map_of results ''ticker'' = Some (JStr (toUpperCase tkr))
           \<and> name ?r
               = (case map_of results ''name'' of
                    None \<Rightarrow> JStr (toUpperCase tkr)
                  | Some n \<Rightarrow> if truthy n then n else JStr (toUpperCase tkr)))"
    by blast
qed



lemma toUpperCase_samples: "toUpperCase ''aapl'' = ''AAPL''" "toUpperCase ''msft'' = ''MSFT''"
  by code_simp+

text \<open>C4, witness: with a key and the AAPL answer, \<open>aapl\<close> exists and \<open>msft\<close> and
  \<open>goog\<close> do not; without a key, or when the request throws, \<open>aapl\<close> is not found.\<close>

theorem C4_exists_iff_witness:
  "exists (fst (checkTickerAndName (Some ''KEY'') (\<lambda>i url. Inr aapl_details) ''aapl''))
   \<and> \<not> exists (fst (checkTickerAndName (Some ''KEY'') (\<lambda>i url. Inr aapl_details) ''msft''))
   \<and> fst (checkTickerAndName (Some ''KEY'') (\<lambda>i url. Inr aapl_details) ''msft'')
        = \<lparr> exists = False, name = JNull \<rparr>
   \<and> key_missing None
   \<and> fst (checkTickerAndName None (\<lambda>i url. Inr aapl_details) ''aapl'')
        = \<lparr> exists = False, name = JNull \<rparr>
   \<and> fst (checkTickerAndName (Some ''KEY'') (\<lambda>i url. Inl NetworkError) ''aapl'')
        = \<lparr> exists = False, name = JNull \<rparr>
   \<and> map_of [(''ticker'', JStr ''AAPL''), (''name'', JStr ''Apple Inc.'')] ''ticker''
        \<noteq> Some (JStr (toUpperCase ''goog''))
   \<and> fst (checkTickerAndName (Some ''KEY'') (\<lambda>i url. Inr aapl_details) ''goog'')
        = \<lparr> exists = False, name = JNull \<rparr>"
proof -
  have cond: "''aapl'' \<noteq> [] \<and> \<not> key_missing (Some ''KEY'') \<and>
      (\<exists>obj results. (Inr aapl_details :: error + jsval) = Inr (JObj obj)
         \<and> map_of obj ''status'' = Some (JStr ''OK'')
         \<and> map_of obj ''results'' = Some (JObj results)
         \<and> map_of results ''ticker'' = Some (JStr (toUpperCase ''aapl'')))"
    by (simp add: toUpperCase_samples aapl_details_def key_missing_def)
  have ncond: "\<not> (''msft'' \<noteq> [] \<and> \<not> key_missing (Some ''KEY'') \<and>
      (\<exists>obj results. (Inr aapl_details :: error + jsval) = Inr (JObj obj)
         \<and> map_of obj ''status'' = Some (JStr ''OK'')
         \<and> map_of obj ''results'' = Some (JObj results)
         \<and> map_of results ''ticker'' = Some (JStr (toUpperCase ''msft''))))"
    by (simp add: toUpperCase_samples aapl_details_def key_missing_def)
  have a: "exists (fst (checkTickerAndName (Some ''KEY'') (\<lambda>i url. Inr aapl_details) ''aapl''))"
    using cond C4_exists_iff [of "Some ''KEY''" "\<lambda>i url. Inr aapl_details" "''aapl''"]
    by blast
  have b: "\<not> exists (fst (checkTickerAndName (Some ''KEY'') (\<lambda>i url. Inr aapl_details) ''msft''))"
    using ncond C4_exists_iff [of "Some ''KEY''" "\<lambda>i url. Inr aapl_details" "''msft''"]
    by blast
  have c: "fst (checkTickerAndName (Some ''KEY'') (\<lambda>i url. Inr aapl_details) ''msft'')
        = \<lparr> exists = False, name = JNull \<rparr>"
    using b C4_exists_iff [of "Some ''KEY''" "\<lambda>i url. Inr aapl_details" "''msft''"] by blast
  have d: "key_missing None" by (simp add: key_missing_def)
  have e: "fst (checkTickerAndName None (\<lambda>i url. Inr aapl_details) ''aapl'')
        = \<lparr> exists = False, name = JNull \<rparr>"
    using d C4_exists_iff [of None "\<lambda>i url. Inr aapl_details" "''aapl''"] by blast
  have f: "fst (checkTickerAndName (Some ''KEY'') (\<lambda>i url. Inl NetworkError) ''aapl'')
        = \<lparr> exists = False, name = JNull \<rparr>"
    using C4_exists_iff [of "Some ''KEY''" "\<lambda>i url. Inl NetworkError" "''aapl''" NetworkError] by blast
  have up: "toUpperCase ''goog'' = ''GOOG''" by code_simp
  have mis: "map_of [(''ticker'', JStr ''AAPL''), (''name'', JStr ''Apple Inc.'')] ''ticker''
        \<noteq> Some (JStr (toUpperCase ''goog''))"
    by (simp add: up)
  have shape: "(Inr aapl_details :: error + jsval)
        = Inr (JObj [(''status'', JStr ''OK''),
             (''results'', JObj [(''ticker'', JStr ''AAPL''), (''name'', JStr ''Apple Inc.'')])])
      \<and> map_of [(''status'', JStr ''OK''),
             (''results'', JObj [(''ticker'', JStr ''AAPL''), (''name'', JStr ''Apple Inc.'')])] ''results''
          = Some (JObj [(''ticker'', JStr ''AAPL''), (''name'', JStr ''Apple Inc.'')])"
    by (simp add: aapl_details_def)
  from mis shape C4_exists_iff [of "Some ''KEY''" "\<lambda>i url. Inr aapl_details" "''goog''" NetworkError
      "[(''status'', JStr ''OK''),
        (''results'', JObj [(''ticker'', JStr ''AAPL''), (''name'', JStr ''Apple Inc.'')])]"
      "[(''ticker'', JStr ''AAPL''), (''name'', JStr ''Apple Inc.'')]"]
  have g: "fst (checkTickerAndName (Some ''KEY'') (\<lambda>i url. Inr aapl_details) ''goog'')
        = \<lparr> exists = False, name = JNull \<rparr>"
    by blast
  from a b c d e f mis g show ?thesis by blast
qed


text \<open>C10, witness: the answer with a company name gives \<open>Apple Inc.\<close>, the answer
  without one gives the upper-cased symbol \<open>AAPL\<close>.\<close>

theorem C10_verified_name_witness:
  "exists (fst (checkTickerAndName (Some ''KEY'') (\<lambda>i url. Inr aapl_details) ''aapl''))
   \<and> name (fst (checkTickerAndName (Some ''KEY'') (\<lambda>i url. Inr aapl_details) ''aapl''))
        = JStr ''Apple Inc.''
   \<and> exists (fst (checkTickerAndName (Some ''KEY'') (\<lambda>i url. Inr aapl_details_unnamed) ''aapl''))
   \<and> name (fst (checkTickerAndName (Some ''KEY'') (\<lambda>i url. Inr aapl_details_unnamed) ''aapl''))
        = JStr ''AAPL''"
proof -
  let ?r = "fst (checkTickerAndName (Some ''KEY'') (\<lambda>i url. Inr aapl_details) ''aapl'')"
  let ?u = "fst (checkTickerAndName (Some ''KEY'') (\<lambda>i url. Inr aapl_details_unnamed) ''aapl'')"
  have a: "exists ?r"
    by (simp add: checkTickerAndName_def and_then_def key_missing_def aapl_details_def
        toUpperCase_samples)
  have b: "exists ?u"
    by (simp add: checkTickerAndName_def and_then_def key_missing_def aapl_details_unnamed_def
        toUpperCase_samples)
  from a C10_verified_name [of "Some ''KEY''" "\<lambda>i url. Inr aapl_details" "''aapl''"]
  obtain obj results where
    r: "(Inr aapl_details :: error + jsval) = Inr (JObj obj)"
       "map_of obj ''results'' = Some (JObj results)"
       "name ?r = (case map_of results ''name'' of
                    None \<Rightarrow> JStr (toUpperCase ''aapl'')
                  | Some n \<Rightarrow> if truthy n then n else JStr (toUpperCase ''aapl''))"
    by blast
  from r(1) have "obj = [(''status'', JStr ''OK''),
           (''results'', JObj [(''ticker'', JStr ''AAPL''), (''name'', JStr ''Apple Inc.'')])]"
    by (simp add: aapl_details_def)
  with r(2) have "results = [(''ticker'', JStr ''AAPL''), (''name'', JStr ''Apple Inc.'')]"
    by simp
  with r(3) have c: "name ?r = JStr ''Apple Inc.''"
    by simp
  from b C10_verified_name [of "Some ''KEY''" "\<lambda>i url. Inr aapl_details_unnamed" "''aapl''"]
  obtain obj' results' where
    u: "(Inr aapl_details_unnamed :: error + jsval) = Inr (JObj obj')"
       "map_of obj' ''results'' = Some (JObj results')"
       "name ?u = (case map_of results' ''name'' of
                    None \<Rightarrow> JStr (toUpperCase ''aapl'')
                  | Some n \<Rightarrow> if truthy n then n else JStr (toUpperCase ''aapl''))"
    by blast
  from u(1) have "obj' = [(''status'', JStr ''OK''), (''results'', JObj [(''ticker'', JStr ''AAPL'')])]"
    by (simp add: aapl_details_unnamed_def)
  with u(2) have "results' = [(''ticker'', JStr ''AAPL'')]"
    by simp
  with u(3) have d: "name ?u = JStr ''AAPL''"
    by (simp add: toUpperCase_samples)
  from a b c d show ?thesis by blast
qed

section \<open>Price and rate fetchers\<close>

lemma number_or_cases: "number_or d v = d \<or> v = JNum (number_or d v)"
  by (cases v) (simp_all add: number_or_def)



lemma has_results_bars:
  "map_of obj ''results'' = Some (JArr (bar # bars)) \<Longrightarrow> has_results tonum (JObj obj) = Inr True"
  by (simp add: has_results_def and_then_def gt_zero_def js_gt_def)

lemma first_close_bars:
  "map_of obj ''results'' = Some (JArr (bar # bars)) \<Longrightarrow>
     first_close (JObj obj) = get_prop bar ''c''"
  by (simp add: first_close_def and_then_def)




























lemma rate_one_or_close:
  assumes "fst (fetchExchangeRate k tonum net from to) \<noteq> Fin 1"
  shows "from \<noteq> to \<and> \<not> key_missing k \<and>
         (\<exists>data. net 0 (fx_url from to k) = Inr data
            \<and> has_results tonum data = Inr True
            \<and> first_close data = Inr (JNum (fst (fetchExchangeRate k tonum net from to))))"
  using assms number_or_cases [of "Fin 1"]
  by (fastforce simp: fetchExchangeRate_def and_then_def split: sum.splits if_splits)

lemma euro_rate_fallback_or_close:
  assumes "fst (fetchEuroToUsdRate k tonum net) \<noteq> Fin 1.08"
  shows "\<not> key_missing k \<and>
         (\<exists>data. net 0 (prev_url ''C:EURUSD'' k) = Inr data
            \<and> get_prop data ''status'' = Inr (JStr ''OK'')
            \<and> first_close data = Inr (JNum (fst (fetchEuroToUsdRate k tonum net))))"
  using assms number_or_cases [of "Fin 1.08"]
  by (fastforce simp: fetchEuroToUsdRate_def and_then_def split: sum.splits if_splits)

lemma fetchExchangeRate_same: "fetchExchangeRate k tonum net cur cur = (Fin 1, [])"
  by (simp add: fetchExchangeRate_def)

lemma fetchExchangeRate_no_key:
  "key_missing k \<Longrightarrow> fetchExchangeRate k tonum net from to = (Fin 1, [])"
  by (simp add: fetchExchangeRate_def)

lemma fetchExchangeRate_error:
  "net 0 (fx_url from to k) = Inl e \<Longrightarrow> fst (fetchExchangeRate k tonum net from to) = Fin 1"
  by (simp add: fetchExchangeRate_def and_then_def)

lemma fetchEuroToUsdRate_no_key:
  "key_missing k \<Longrightarrow> fetchEuroToUsdRate k tonum net = (Fin 1.08, [])"
  by (simp add: fetchEuroToUsdRate_def)

lemma fetchEuroToUsdRate_error:
  "net 0 (prev_url ''C:EURUSD'' k) = Inl e \<Longrightarrow> fst (fetchEuroToUsdRate k tonum net) = Fin 1.08"
  by (simp add: fetchEuroToUsdRate_def and_then_def)

lemma fallbacks_differ:
  "fst (fetchExchangeRate None tonum net ''EUR'' ''USD'') \<noteq> fst (fetchEuroToUsdRate None tonum net)"
  by (simp add: fetchExchangeRate_def fetchEuroToUsdRate_def key_missing_def)

lemma fetchExchangeRate_no_results:
  "net 0 (fx_url from to k) = Inr (JObj obj) \<Longrightarrow>
     map_of obj ''results'' = None \<or> map_of obj ''results'' = Some (JArr []) \<Longrightarrow>
     fst (fetchExchangeRate k tonum net from to) = Fin 1"
  by (auto simp: fetchExchangeRate_def and_then_def has_results_def gt_zero_def js_gt_def)

lemma fetchExchangeRate_not_number:
  "net 0 (fx_url from to k) = Inr (JObj obj) \<Longrightarrow>
     map_of obj ''results'' = Some (JArr (JObj bar # bars)) \<Longrightarrow> map_of bar ''c'' = Some v \<Longrightarrow>
     \<not> is_number v \<Longrightarrow> fst (fetchExchangeRate k tonum net from to) = Fin 1"
  by (cases v)
     (simp_all add: fetchExchangeRate_def and_then_def has_results_bars first_close_bars number_or_def)

lemma fetchEuroToUsdRate_no_results:
  "net 0 (prev_url ''C:EURUSD'' k) = Inr (JObj obj) \<Longrightarrow>
     map_of obj ''results'' = None \<or> map_of obj ''results'' = Some (JArr []) \<Longrightarrow>
     fst (fetchEuroToUsdRate k tonum net) = Fin 1.08"
  by (auto simp: fetchEuroToUsdRate_def and_then_def gt_zero_def js_gt_def)

lemma fetchEuroToUsdRate_not_number:
  "net 0 (prev_url ''C:EURUSD'' k) = Inr (JObj obj) \<Longrightarrow>
     map_of obj ''results'' = Some (JArr (JObj bar # bars)) \<Longrightarrow> map_of bar ''c'' = Some v \<Longrightarrow>
     \<not> is_number v \<Longrightarrow> fst (fetchEuroToUsdRate k tonum net) = Fin 1.08"
  by (cases v)
     (simp_all add: fetchEuroToUsdRate_def and_then_def gt_zero_def js_gt_def first_close_bars
        number_or_def)

text \<open>
  C8: \<^verbatim>\<open>fetchExchangeRate(from, to)\<close> returns 1.0 and issues no request when
  \<open>from = to\<close>; it returns 1.0 when the API key is missing, when the request
  throws, when the response has no \<open>results\<close> or an empty one, and when the close
  \<open>c\<close> of the first result is not a number; and any result other than 1.0 is the
  numeric close of the first result of a response that has results.
  \<^verbatim>\<open>fetchEuroToUsdRate\<close> returns 1.08 in the same situations, and any result other
  than 1.08 is the numeric close of a response with status \<^verbatim>\<open>"OK"\<close>. The two
  fallbacks differ: without an API key the first gives 1.0 for EUR to USD and the
  second 1.08.
\<close>

theorem C8_rate_fallbacks:
  "fetchExchangeRate k tonum net cur cur = (Fin 1, [])
   \<and> (key_missing k \<longrightarrow> fetchExchangeRate k tonum net from to = (Fin 1, []))
   \<and> (net 0 (fx_url from to k) = Inl e \<longrightarrow> fst (fetchExchangeRate k tonum net from to) = Fin 1)
   \<and> (net 0 (fx_url from to k) = Inr (JObj obj)
        \<and> (map_of obj ''results'' = None \<or> map_of obj ''results'' = Some (JArr [])) \<longrightarrow>
         fst (fetchExchangeRate k tonum net from to) = Fin 1)
   \<and> (net 0 (fx_url from to k) = Inr (JObj obj)
        \<and> map_of obj ''results'' = Some (JArr (JObj bar # bars)) \<and> map_of bar ''c'' = Some v
        \<and> \<not> is_number v \<longrightarrow>
         fst (fetchExchangeRate k tonum net from to) = Fin 1)
   \<and> (fst (fetchExchangeRate k tonum net from to) \<noteq> Fin 1 \<longrightarrow>
         from \<noteq> to \<and> \<not> key_missing k
         \<and> (\<exists>data. net 0 (fx_url from to k) = Inr data
               \<and> has_results tonum data = Inr True
               \<and> first_close data = Inr (JNum (fst (fetchExchangeRate k tonum net from to)))))
   \<and> (key_missing k \<longrightarrow> fetchEuroToUsdRate k tonum net = (Fin 1.08, []))
   \<and> (net 0 (prev_url ''C:EURUSD'' k) = Inl e \<longrightarrow> fst (fetchEuroToUsdRate k tonum net) = Fin 1.08)
   \<and> (net 0 (prev_url ''C:EURUSD'' k) = Inr (JObj obj)
        \<and> (map_of obj ''results'' = None \<or> map_of obj ''results'' = Some (JArr [])) \<longrightarrow>
         fst (fetchEuroToUsdRate k tonum net) = Fin 1.08)
   \<and> (net 0 (prev_url ''C:EURUSD'' k) = Inr (JObj obj)
        \<and> map_of obj ''results'' = Some (JArr (JObj bar # bars)) \<and> map_of bar ''c'' = Some v
        \<and> \<not> is_number v \<longrightarrow>
         fst (fetchEuroToUsdRate k tonum net) = Fin 1.08)
   \<and> (fst (fetchEuroToUsdRate k tonum net) \<noteq> Fin 1.08 \<longrightarrow>
         \<not> key_missing k
         \<and> (\<exists>data. net 0 (prev_url ''C:EURUSD'' k) = Inr data
               \<and> get_prop data ''status'' = Inr (JStr ''OK'')
               \<and> first_close data = Inr (JNum (fst (fetchEuroToUsdRate k tonum net)))))
   \<and> fst (fetchExchangeRate None tonum net ''EUR'' ''USD'') \<noteq> fst (fetchEuroToUsdRate None tonum net)"
  using fetchExchangeRate_same [of k tonum net cur]
    fetchExchangeRate_no_key [of k tonum net "from" "to"]
    fetchExchangeRate_error [of net "from" "to" k e tonum]
    fetchExchangeRate_no_results [of net "from" "to" k obj tonum]
    fetchExchangeRate_not_number [of net "from" "to" k obj bar bars v tonum]
    rate_one_or_close [of k tonum net "from" "to"]
    fetchEuroToUsdRate_no_key [of k tonum net]
    fetchEuroToUsdRate_error [of net k e tonum]
    fetchEuroToUsdRate_no_results [of net k obj tonum]
    fetchEuroToUsdRate_not_number [of net k obj bar bars v tonum]
    euro_rate_fallback_or_close [of k tonum net]
    fallbacks_differ [of tonum net]
  by blast

text \<open>C8, witness: the fallbacks without a key, on a thrown request, on a response
  without results and on a close that is a string; and a response with the close
  7, which both functions return.\<close>

theorem C8_rate_fallbacks_witness:
  "key_missing None
   \<and> fetchExchangeRate None tonum_nan second_fails ''USD'' ''EUR'' = (Fin 1, [])
   \<and> fetchEuroToUsdRate None tonum_nan second_fails = (Fin 1.08, [])
   \<and> fst (fetchExchangeRate (Some ''KEY'') tonum_nan (\<lambda>i url. Inl NetworkError) ''USD'' ''EUR'') = Fin 1
   \<and> fst (fetchEuroToUsdRate (Some ''KEY'') tonum_nan (\<lambda>i url. Inl NetworkError)) = Fin 1.08
   \<and> fst (fetchExchangeRate (Some ''KEY'') tonum_nan (\<lambda>i url. Inr (JObj [])) ''USD'' ''EUR'') = Fin 1
   \<and> fst (fetchEuroToUsdRate (Some ''KEY'') tonum_nan (\<lambda>i url. Inr (JObj []))) = Fin 1.08
   \<and> \<not> is_number (JStr ''n/a'')
   \<and> fst (fetchExchangeRate (Some ''KEY'') tonum_nan
          (\<lambda>i url. Inr (JObj [(''results'', JArr [JObj [(''c'', JStr ''n/a'')]])])) ''USD'' ''EUR'') = Fin 1
   \<and> fst (fetchEuroToUsdRate (Some ''KEY'') tonum_nan
          (\<lambda>i url. Inr (JObj [(''results'', JArr [JObj [(''c'', JStr ''n/a'')]])]))) = Fin 1.08
   \<and> fst (fetchExchangeRate (Some ''KEY'') tonum_nan second_fails ''USD'' ''EUR'') = Fin 7
   \<and> first_close (bar_response (Fin 7)) = Inr (JNum (Fin 7))
   \<and> fst (fetchEuroToUsdRate (Some ''KEY'') tonum_nan second_fails) = Fin 7"
proof -
  have nokey: "key_missing None" by (simp add: key_missing_def)
  note N = C8_rate_fallbacks [of None tonum_nan second_fails "''USD''" "''USD''" "''EUR''" NetworkError
      "[]" "[]" "[]" JNull]
  from nokey N have a: "fetchExchangeRate None tonum_nan second_fails ''USD'' ''EUR'' = (Fin 1, [])"
    by blast
  from nokey N have b: "fetchEuroToUsdRate None tonum_nan second_fails = (Fin 1.08, [])"
    by blast
  note E = C8_rate_fallbacks [of "Some ''KEY''" tonum_nan "\<lambda>i url. Inl NetworkError" "''USD''" "''USD''" "''EUR''" NetworkError
      "[]" "[]" "[]" JNull]
  from E have c: "fst (fetchExchangeRate (Some ''KEY'') tonum_nan (\<lambda>i url. Inl NetworkError) ''USD'' ''EUR'') = Fin 1"
    by blast
  from E have d: "fst (fetchEuroToUsdRate (Some ''KEY'') tonum_nan (\<lambda>i url. Inl NetworkError)) = Fin 1.08"
    by blast
  have none: "map_of ([] :: (string \<times> jsval) list) ''results'' = None" by simp
  note M = C8_rate_fallbacks [of "Some ''KEY''" tonum_nan "\<lambda>i url. Inr (JObj [])" "''USD''" "''USD''" "''EUR''" NetworkError
      "[]" "[]" "[]" JNull]
  from M none have m1: "fst (fetchExchangeRate (Some ''KEY'') tonum_nan (\<lambda>i url. Inr (JObj [])) ''USD'' ''EUR'') = Fin 1"
    by blast
  from M none have m2: "fst (fetchEuroToUsdRate (Some ''KEY'') tonum_nan (\<lambda>i url. Inr (JObj []))) = Fin 1.08"
    by blast
  have nn: "\<not> is_number (JStr ''n/a'')" by simp
  have shape: "map_of [(''results'', JArr [JObj [(''c'', JStr ''n/a'')]])] ''results''
                 = Some (JArr (JObj [(''c'', JStr ''n/a'')] # []))
               \<and> map_of [(''c'', JStr ''n/a'')] ''c'' = Some (JStr ''n/a'')"
    by simp
  note X = C8_rate_fallbacks [of "Some ''KEY''" tonum_nan
      "\<lambda>i url. Inr (JObj [(''results'', JArr [JObj [(''c'', JStr ''n/a'')]])])"
      "''USD''" "''USD''" "''EUR''" NetworkError
      "[(''results'', JArr [JObj [(''c'', JStr ''n/a'')]])]" "[(''c'', JStr ''n/a'')]" "[]" "JStr ''n/a''"]
  from X nn shape have x1: "fst (fetchExchangeRate (Some ''KEY'') tonum_nan
          (\<lambda>i url. Inr (JObj [(''results'', JArr [JObj [(''c'', JStr ''n/a'')]])])) ''USD'' ''EUR'') = Fin 1"
    by blast
  from X nn shape have x2: "fst (fetchEuroToUsdRate (Some ''KEY'') tonum_nan
          (\<lambda>i url. Inr (JObj [(''results'', JArr [JObj [(''c'', JStr ''n/a'')]])]))) = Fin 1.08"
    by blast
  have g: "first_close (bar_response (Fin 7)) = Inr (JNum (Fin 7))"
    by (simp add: first_close_def and_then_def bar_response_def)
  have f: "fst (fetchExchangeRate (Some ''KEY'') tonum_nan second_fails ''USD'' ''EUR'') = Fin 7"
    by (simp add: fetchExchangeRate_def key_missing_def second_fails_def bar_response_def
        and_then_def has_results_def gt_zero_def js_gt_def first_close_def number_or_def)
  have h: "fst (fetchEuroToUsdRate (Some ''KEY'') tonum_nan second_fails) = Fin 7"
    by (simp add: fetchEuroToUsdRate_def key_missing_def second_fails_def bar_response_def
        and_then_def gt_zero_def js_gt_def first_close_def number_or_def)
  note S = C8_rate_fallbacks [of "Some ''KEY''" tonum_nan second_fails "''USD''" "''USD''" "''EUR''" NetworkError
      "[]" "[]" "[]" JNull]
  from f have "fst (fetchExchangeRate (Some ''KEY'') tonum_nan second_fails ''USD'' ''EUR'') \<noteq> Fin 1"
    by simp
  with S have "''USD'' \<noteq> ''EUR'' \<and> \<not> key_missing (Some ''KEY'')"
    by blast
  with nokey a b c d m1 m2 nn x1 x2 f g h show ?thesis by blast
qed

section \<open>Add-holding and edit-holding forms\<close>

lemma js_lt_not_ge: "js_lt x y \<Longrightarrow> \<not> js_ge x y"
  by (cases x; cases y) simp_all

lemma formSchema_Some:
  assumes "formSchema i = Some values"
  shows "v_ticker values = toUpperCase (in_ticker i) \<and> v_quantity values = in_quantity i
       \<and> v_purchase_price values = in_purchase_price i \<and> v_purchase_date values = in_purchase_date i
       \<and> (v_purchase_currency values = EUR \<longleftrightarrow> in_purchase_currency i = ''EUR'')
       \<and> (v_purchase_currency values = USD \<longleftrightarrow> in_purchase_currency i = ''USD'')
       \<and> js_ge (in_quantity i) (Fin 1) \<and> js_ge (in_purchase_price i) (Fin 0.01)
       \<and> in_ticker i \<noteq> [] \<and> in_purchase_date i \<noteq> []"
  using assms
  by (auto simp: formSchema_def z_enum_currency_def z_number_min_def
      split: if_splits option.splits)


lemma onSubmit_blocked:
  "tickerValidated \<noteq> Some True \<Longrightarrow>
     onSubmit tickerValidated user k tonum net insert_error values
       = [Alert ''Please validate the ticker before submitting.'']"
  by (simp add: onSubmit_def)

lemma formSchema_rejects:
  "in_ticker i = [] \<or> js_lt (in_quantity i) (Fin 1) \<or> js_lt (in_purchase_price i) (Fin 0.01)
     \<or> in_purchase_date i = [] \<or> in_purchase_currency i \<notin> {''USD'', ''EUR''}
   \<Longrightarrow> formSchema i = None"
  by (auto simp: formSchema_def z_number_min_def z_enum_currency_def dest: js_lt_not_ge)


text \<open>
  C6: when \<open>tickerValidated\<close> is \<^verbatim>\<open>null\<close> or \<^verbatim>\<open>false\<close>, \<^verbatim>\<open>onSubmit\<close> issues no
  insert (it only alerts), the same holds for a submission through the form, and
  the submit button is disabled. The schema rejects every input with an empty
  ticker, a quantity below 1, a purchase price below 0.01, an empty date, or a
  currency other than USD and EUR, and for a rejected input the form calls nothing:
  no insert is issued.
\<close>

theorem C6_submission_blocked:
  "(tickerValidated = None \<or> tickerValidated = Some False \<longrightarrow>
       filter is_insert (onSubmit tickerValidated user k tonum net insert_error values) = []
     \<and> filter is_insert (handleSubmit tickerValidated user k tonum net insert_error i) = []
     \<and> submitDisabled isSubmitting tickerValidated isChecking)
   \<and> (in_ticker i = [] \<or> js_lt (in_quantity i) (Fin 1) \<or> js_lt (in_purchase_price i) (Fin 0.01)
        \<or> in_purchase_date i = [] \<or> in_purchase_currency i \<notin> {''USD'', ''EUR''}
       \<longrightarrow> formSchema i = None
         \<and> handleSubmit tickerValidated user k tonum net insert_error i = [])"
proof -
  have a: "tickerValidated = None \<or> tickerValidated = Some False \<longrightarrow>
       filter is_insert (onSubmit tickerValidated user k tonum net insert_error values) = []
     \<and> filter is_insert (handleSubmit tickerValidated user k tonum net insert_error i) = []
     \<and> submitDisabled isSubmitting tickerValidated isChecking"
    by (auto simp: onSubmit_blocked handleSubmit_def submitDisabled_def split: option.splits)
  have b: "in_ticker i = [] \<or> js_lt (in_quantity i) (Fin 1) \<or> js_lt (in_purchase_price i) (Fin 0.01)
        \<or> in_purchase_date i = [] \<or> in_purchase_currency i \<notin> {''USD'', ''EUR''}
       \<longrightarrow> formSchema i = None
         \<and> handleSubmit tickerValidated user k tonum net insert_error i = []"
    using formSchema_rejects [of i] by (auto simp: handleSubmit_def)
  from a b show ?thesis by blast
qed

text \<open>Every insert of the add flow has a quantity of at least 1.\<close>

lemma add_flow_quantity:
  "Insert row \<in> set (handleSubmit tickerValidated user k tonum net insert_error i) \<Longrightarrow>
     js_ge (ins_quantity row) (Fin 1) \<and> js_gt (ins_quantity row) (Fin 0)"
proof -
  assume ins: "Insert row \<in> set (handleSubmit tickerValidated user k tonum net insert_error i)"
  then obtain parsed where p: "formSchema i = Some parsed"
    by (cases "formSchema i") (auto simp: handleSubmit_def)
  from ins p have "ins_quantity row = in_quantity i"
    using formSchema_Some [OF p]
    by (auto simp: handleSubmit_def onSubmit_def Let_def split_beta
        split: if_splits option.splits)
  moreover from formSchema_Some [OF p] have "js_ge (in_quantity i) (Fin 1)" by simp
  ultimately have ge: "js_ge (ins_quantity row) (Fin 1)" by simp
  then have "js_gt (ins_quantity row) (Fin 0)"
    by (cases "ins_quantity row") (simp_all add: js_gt_def)
  with ge show ?thesis by simp
qed

text \<open>
  C7 does not hold for the edit flow. The claim: every holding written to the store
  has a positive quantity, in the add flow and in the edit flow. The add flow keeps
  it (\<open>add_flow_quantity\<close>). In the edit form of the scenario's holding, clearing the
  quantity field (\<^verbatim>\<open>parseFloat\<close> gives \<open>NaN\<close>, and \<^verbatim>\<open>|| 0\<close> stores 0) or entering
  -5, and then saving, issues an update with the quantity 0, respectively -5:
  \<^verbatim>\<open>handleSave\<close> checks nothing.
\<close>

theorem C7_edit_flow_writes_zero_quantity:
  "handleSave (onChange_quantity (initial_data aapl_holding) NaN) aapl_holding False
     = [Update \<lparr> upd_id = ''h1'', upd_quantity = Fin 0, upd_purchase_price = Fin 100,
                 upd_purchase_date = ''2024-01-02'' \<rparr>, OnSuccess, OnClose]
   \<and> handleSave (onChange_quantity (initial_data aapl_holding) (Fin (- 5))) aapl_holding False
     = [Update \<lparr> upd_id = ''h1'', upd_quantity = Fin (- 5), upd_purchase_price = Fin 100,
                 upd_purchase_date = ''2024-01-02'' \<rparr>, OnSuccess, OnClose]
   \<and> \<not> js_gt (Fin 0) (Fin 0) \<and> \<not> js_gt (Fin (- 5)) (Fin 0)"
  by (simp add: handleSave_def onChange_quantity_def initial_data_def aapl_holding_def
      or_zero_def js_gt_def)






text \<open>C6, witness: no insert with \<open>tickerValidated\<close> \<^verbatim>\<open>null\<close> or \<^verbatim>\<open>false\<close>; the
  quantity 0.5 and the currency GBP are rejected by the schema.\<close>

theorem C6_submission_blocked_witness:
  "filter is_insert (onSubmit None (Some ''u1'') None tonum_nan second_fails None
       \<lparr> v_ticker = ''AAPL'', v_quantity = Fin 10, v_purchase_price = Fin 100,
         v_purchase_date = ''2024-01-02'', v_purchase_currency = USD \<rparr>) = []
   \<and> filter is_insert (handleSubmit (Some False) (Some ''u1'') None tonum_nan second_fails None usd_input) = []
   \<and> submitDisabled False None False
   \<and> js_lt (in_quantity (usd_input \<lparr> in_quantity := Fin 0.5 \<rparr>)) (Fin 1)
   \<and> formSchema (usd_input \<lparr> in_quantity := Fin 0.5 \<rparr>) = None
   \<and> handleSubmit (Some True) (Some ''u1'') None tonum_nan second_fails None
        (usd_input \<lparr> in_quantity := Fin 0.5 \<rparr>) = []
   \<and> in_purchase_currency (usd_input \<lparr> in_purchase_currency := ''GBP'' \<rparr>) \<notin> {''USD'', ''EUR''}
   \<and> formSchema (usd_input \<lparr> in_purchase_currency := ''GBP'' \<rparr>) = None"
proof -
  note A = C6_submission_blocked [of None "Some ''u1''" None tonum_nan second_fails None
      "\<lparr> v_ticker = ''AAPL'', v_quantity = Fin 10, v_purchase_price = Fin 100,
         v_purchase_date = ''2024-01-02'', v_purchase_currency = USD \<rparr>" usd_input False False]
  from A have a: "filter is_insert (onSubmit None (Some ''u1'') None tonum_nan second_fails None
       \<lparr> v_ticker = ''AAPL'', v_quantity = Fin 10, v_purchase_price = Fin 100,
         v_purchase_date = ''2024-01-02'', v_purchase_currency = USD \<rparr>) = []
     \<and> submitDisabled False None False"
    by blast
  note B = C6_submission_blocked [of "Some False" "Some ''u1''" None tonum_nan second_fails None
      "\<lparr> v_ticker = ''AAPL'', v_quantity = Fin 10, v_purchase_price = Fin 100,
         v_purchase_date = ''2024-01-02'', v_purchase_currency = USD \<rparr>" usd_input False False]
  from B have b: "filter is_insert (handleSubmit (Some False) (Some ''u1'') None tonum_nan second_fails None usd_input) = []"
    by blast
  have q: "js_lt (in_quantity (usd_input \<lparr> in_quantity := Fin 0.5 \<rparr>)) (Fin 1)"
    by simp
  note C = C6_submission_blocked [of "Some True" "Some ''u1''" None tonum_nan second_fails None
      "\<lparr> v_ticker = ''AAPL'', v_quantity = Fin 10, v_purchase_price = Fin 100,
         v_purchase_date = ''2024-01-02'', v_purchase_currency = USD \<rparr>"
      "usd_input \<lparr> in_quantity := Fin 0.5 \<rparr>" False False]
  from C q have c: "formSchema (usd_input \<lparr> in_quantity := Fin 0.5 \<rparr>) = None
     \<and> handleSubmit (Some True) (Some ''u1'') None tonum_nan second_fails None
        (usd_input \<lparr> in_quantity := Fin 0.5 \<rparr>) = []"
    by blast
  have g: "in_purchase_currency (usd_input \<lparr> in_purchase_currency := ''GBP'' \<rparr>) \<notin> {''USD'', ''EUR''}"
    by simp
  note D = C6_submission_blocked [of "Some True" "Some ''u1''" None tonum_nan second_fails None
      "\<lparr> v_ticker = ''AAPL'', v_quantity = Fin 10, v_purchase_price = Fin 100,
         v_purchase_date = ''2024-01-02'', v_purchase_currency = USD \<rparr>"
      "usd_input \<lparr> in_purchase_currency := ''GBP'' \<rparr>" False False]
  from D g have d: "formSchema (usd_input \<lparr> in_purchase_currency := ''GBP'' \<rparr>) = None"
    by blast
  from a b q c g d show ?thesis by blast
qed

section \<open>Where a non-finite price or rate comes from\<close>

text \<open>
  A numeric literal of a response that is beyond the range of a double (such as
  \<^verbatim>\<open>1e999\<close>) is parsed as \<open>+Infinity\<close>, a number. \<^verbatim>\<open>fetchStockPrices\<close> and
  \<^verbatim>\<open>fetchExchangeRate\<close> test \<^verbatim>\<open>typeof c === "number"\<close> only, so the value reaches
  the price map, the rows and the state \<^verbatim>\<open>exchangeRate\<close>.
\<close>

lemma infinite_close_price:
  "fst (fetchStockPrices (Some ''KEY'') tonum_nan (\<lambda>i url. Inr (bar_response PInf)) [''AAPL'']) ''AAPL''
     = Some PInf"
  by (simp add: fetchStockPrices_def key_missing_def assign_def stock_price_def and_then_def
      bar_response_def has_results_def gt_zero_def js_gt_def first_close_def number_or_def)

lemma infinite_close_portfolio:
  "map_option (map gain_loss_percent)
     (fetchPortfolio (Some ''KEY'') tonum_nan (\<lambda>i url. Inr (bar_response PInf)) (Inr [aapl_holding]))
     = Some [PInf]"
  by (simp add: fetchPortfolio_def uniqueOf_def aapl_holding_def Let_def
      fetchStockPrices_def key_missing_def assign_def stock_price_def and_then_def bar_response_def
      has_results_def gt_zero_def js_gt_def first_close_def number_or_def
      displayRow_def or_zero_def price_number_def js_sub_def signed_inf_def rnd_eval)

lemma infinite_close_rate:
  "handleCurrencyChange (Some ''KEY'') tonum_nan (\<lambda>i url. Inr (bar_response PInf)) ''EUR'' = PInf"
  by (simp add: handleCurrencyChange_def fetchExchangeRate_def key_missing_def and_then_def
      bar_response_def has_results_def gt_zero_def js_gt_def first_close_def number_or_def)

lemma uniqueOf_aux:
  "distinct acc \<Longrightarrow>
     distinct (foldl (\<lambda>seen x. if x \<in> set seen then seen else seen @ [x]) acc xs)
     \<and> set (foldl (\<lambda>seen x. if x \<in> set seen then seen else seen @ [x]) acc xs) = set acc \<union> set xs"
  by (induction xs arbitrary: acc) auto

lemma uniqueOf_distinct: "distinct (uniqueOf xs) \<and> set (uniqueOf xs) = set xs"
  using uniqueOf_aux [of "[]" xs] by (simp add: uniqueOf_def)

end
